theory Spec2Isabelle
  imports Main "HOL-Library.Word"
begin

unbundle bit_operations_syntax

section \<open>Data model\<close>

text \<open>
  A \<open>v1.ConfigMap\<close> as the commands use it: the name and labels of its
  \<open>ObjectMeta\<close> (Go promotes them to \<open>cm.Name\<close>) and the \<open>Data\<close> map. Go's
  \<open>map[string]string\<close> is a partial map; reading a missing key gives the empty string,
  which \<open>lookup\<close> writes out.
\<close>

record ConfigMap =
  Name :: string
  Labels :: "string \<rightharpoonup> string"
  Data :: "string \<rightharpoonup> string"

definition lookup :: "(string \<rightharpoonup> string) \<Rightarrow> string \<Rightarrow> string" where
  "lookup m k = (case m k of None \<Rightarrow> [] | Some v \<Rightarrow> v)"

text \<open>
  The errors of the two source files. Go builds them with \<open>fmt.Errorf\<close>; each message is
  one constructor, its arguments the values formatted into it.
\<close>

datatype error =
    ReadError string
  | EmptyFile string
  | NoFunctionName
  | NoSourceSupplied
  | NoRuntimeSupplied
  | NoRuntimeExists string
  | ListOptionsError
  | StoreError
  | AlreadyExists string
  | NotFound string
  | WatcherError
  | LoadError string
  | ParseError string
  | FailedTo string string string error

text \<open>The flags and state of \<open>createFunctionCmd\<close> (the fields \<open>p.name\<close>, \<open>p.runtime\<close>, ...).\<close>

record createFunctionCmd =
  p_namespace :: string
  p_name :: string
  p_runtime :: string
  p_source :: string
  p_file :: string
  p_watch :: bool
  p_configMaps :: "string \<rightharpoonup> ConfigMap"

section \<open>Name resolution\<close>

text \<open>
  \<open>path/filepath\<close> of Go's standard library, on a Unix system (the separator is the
  slash and there is no volume name). \<open>Split\<close> walks back from the end to the last
  separator; \<open>Ext\<close> walks back to the last dot of the final element. The loop index \<open>i\<close>
  of the library runs from \<open>len(path) - 1\<close> down to \<open>-1\<close>; the recursion below is on
  \<open>i + 1\<close>.
\<close>

definition IsPathSeparator :: "char \<Rightarrow> bool" where
  "IsPathSeparator c = (c = CHR ''/'')"

fun Split_loop :: "string \<Rightarrow> nat \<Rightarrow> nat" where
  "Split_loop path 0 = 0"
| "Split_loop path (Suc i) =
     (if IsPathSeparator (path ! i) then Suc i else Split_loop path i)"

definition Split :: "string \<Rightarrow> string \<times> string" where
  "Split path = (let k = Split_loop path (length path) in (take k path, drop k path))"

fun Ext_loop :: "string \<Rightarrow> nat \<Rightarrow> string" where
  "Ext_loop path 0 = []"
| "Ext_loop path (Suc i) =
     (if IsPathSeparator (path ! i) then []
      else if path ! i = CHR ''.'' then drop i path
      else Ext_loop path i)"

definition Ext :: "string \<Rightarrow> string" where
  "Ext path = Ext_loop path (length path)"

text \<open>\<open>nameFromFile\<close>, create.go lines 228 to 242.\<close>

definition nameFromFile :: "createFunctionCmd \<Rightarrow> string \<Rightarrow> string" where
  "nameFromFile p fileName =
     (if length (p_name p) \<noteq> 0 then p_name p
      else if length fileName = 0 then []
      else
        let name = snd (Split fileName);
            ext = Ext name;
            l = length ext
        in if l > 0 then take (length name - l) name else name)"

text \<open>
  The words of the specification, for comparison: the base name of a path is what follows
  its last separator, and stripping the extension removes the text from the final dot
  onward, a name without a dot staying whole.
\<close>

definition base_name :: "string \<Rightarrow> string" where
  "base_name P = rev (takeWhile (\<lambda>c. c \<noteq> CHR ''/'') (rev P))"

definition strip_extension :: "string \<Rightarrow> string" where
  "strip_extension b =
     (if CHR ''.'' \<in> set b then rev (tl (dropWhile (\<lambda>c. c \<noteq> CHR ''.'') (rev b))) else b)"

section \<open>Name generation\<close>






section \<open>The funktion package, the store and the world\<close>

text \<open>
  The commands use constants and helpers of the package \<open>pkg/funktion\<close>, which is not
  among the sources: the label keys and values, the key of the source text in a
  ConfigMap's data, and the three builders of list options. They are parameters here, one
  record for the package. A builder returns list options or an error, as in the source.
\<close>

type_synonym ListOptions = "(string \<times> string) list"

record funktion =
  KindLabel :: string
  FunctionKind :: string
  RuntimeLabel :: string
  SourceProperty :: string
  CreateFunctionListOptions :: "error + ListOptions"
  CreateRuntimeListOptions :: "error + ListOptions"
  CreateConnectorListOptions :: "error + ListOptions"

text \<open>
  Everything the process does to its surroundings is recorded, oldest first: file reads,
  requests to the store, registrations with the file watcher, downloads and printed lines.
\<close>

datatype action =
    ReadFile string
  | StoreList ListOptions
  | StoreCreate ConfigMap
  | StoreUpdate ConfigMap
  | NewWatcher
  | WatcherAdd string
  | HttpGet string
  | Println "string list"
  | PrintError error
  | Installed string nat string "nat option"
  | Fatal error

record RawExtension =
  Object :: "ConfigMap option"
  Raw :: string

text \<open>
  The surroundings of the process: the file system (\<open>None\<close> for a file that cannot be
  read), the ConfigMaps of the namespace, the outages of the store (one flag for each
  coming request, consumed in order; no flag left means no outage), the file watcher (the
  paths it refuses, whether it can be created at all, the paths registered), the artifact
  repository (what a download of a bundle gives), and the trace.
\<close>

record world =
  files :: "string \<rightharpoonup> string"
  objects :: "ConfigMap list"
  faults :: "bool list"
  newWatcherError :: "error option"
  addErrors :: "string \<rightharpoonup> error"
  watching :: "string set"
  bundles :: "string \<Rightarrow> error + RawExtension list"
  trace :: "action list"

definition record_action :: "action \<Rightarrow> world \<Rightarrow> world" where
  "record_action a w = w\<lparr>trace := trace w @ [a]\<rparr>"

text \<open>
  Modelled from the spec: the store is an external collaborator, ``a key/value object store
  addressable by name and by label-selector-like filters; supports List, Create, Update'',
  with names unique within the namespace. List options are the label requirements of a
  selector such as \<open>{kind=function}\<close>; \<open>List\<close> returns the objects that meet them.
  \<open>Create\<close> refuses a name that exists, \<open>Update\<close> a name that does not, and an
  update replaces the object wholesale. Any request fails during an outage.
\<close>

definition matches :: "ListOptions \<Rightarrow> ConfigMap \<Rightarrow> bool" where
  "matches opts cm = list_all (\<lambda>(k, v). Labels cm k = Some v) opts"

definition request :: "action \<Rightarrow> world \<Rightarrow> bool \<times> world" where
  "request a w =
     (case faults w of
        [] \<Rightarrow> (False, record_action a w)
      | f # fs \<Rightarrow> (f, record_action a (w\<lparr>faults := fs\<rparr>)))"

definition cms_List :: "ListOptions \<Rightarrow> world \<Rightarrow> (error + ConfigMap list) \<times> world" where
  "cms_List opts w =
     (case request (StoreList opts) w of
        (True, w1) \<Rightarrow> (Inl StoreError, w1)
      | (False, w1) \<Rightarrow> (Inr (filter (matches opts) (objects w1)), w1))"

definition cms_Create :: "ConfigMap \<Rightarrow> world \<Rightarrow> error option \<times> world" where
  "cms_Create cm w =
     (case request (StoreCreate cm) w of
        (True, w1) \<Rightarrow> (Some StoreError, w1)
      | (False, w1) \<Rightarrow>
          if list_ex (\<lambda>obj. Name obj = Name cm) (objects w1)
          then (Some (AlreadyExists (Name cm)), w1)
          else (None, w1\<lparr>objects := objects w1 @ [cm]\<rparr>))"

definition cms_Update :: "ConfigMap \<Rightarrow> world \<Rightarrow> error option \<times> world" where
  "cms_Update cm w =
     (case request (StoreUpdate cm) w of
        (True, w1) \<Rightarrow> (Some StoreError, w1)
      | (False, w1) \<Rightarrow>
          if list_ex (\<lambda>obj. Name obj = Name cm) (objects w1)
          then (None, w1\<lparr>objects := map (\<lambda>obj. if Name obj = Name cm then cm else obj) (objects w1)\<rparr>)
          else (Some (NotFound (Name cm)), w1))"

text \<open>The requests a process issued between two worlds, and the writes among actions.\<close>

definition issued :: "world \<Rightarrow> world \<Rightarrow> action list" where
  "issued w w' = drop (length (trace w)) (trace w')"

fun is_write :: "action \<Rightarrow> bool" where
  "is_write (StoreCreate cm) = True"
| "is_write (StoreUpdate cm) = True"
| "is_write a = False"

fun is_request :: "action \<Rightarrow> bool" where
  "is_request (StoreList opts) = True"
| "is_request (StoreCreate cm) = True"
| "is_request (StoreUpdate cm) = True"
| "is_request a = False"

definition writes :: "action list \<Rightarrow> action list" where
  "writes as = filter is_write as"

section \<open>The function synchronizer\<close>

text \<open>\<open>loadFileSource\<close>, create.go lines 297 to 307.\<close>

definition loadFileSource :: "string \<Rightarrow> world \<Rightarrow> (error + string) \<times> world" where
  "loadFileSource fileName w =
     (let w1 = record_action (ReadFile fileName) w in
      case files w fileName of
        None \<Rightarrow> (Inl (ReadError fileName), w1)
      | Some source \<Rightarrow>
          if length source = 0 then (Inl (EmptyFile fileName), w1) else (Inr source, w1))"

text \<open>\<open>checkRuntimeExists\<close>, create.go lines 309 to 325.\<close>

definition checkRuntimeExists :: "funktion \<Rightarrow> createFunctionCmd \<Rightarrow> string \<Rightarrow> world \<Rightarrow> error option \<times> world" where
  "checkRuntimeExists fk p name w =
     (case CreateRuntimeListOptions fk of
        Inl err \<Rightarrow> (Some err, w)
      | Inr listOpts \<Rightarrow>
          (case cms_List listOpts w of
             (Inl err, w1) \<Rightarrow> (Some err, w1)
           | (Inr items, w1) \<Rightarrow>
               (case find (\<lambda>resource. Name resource = name) items of
                  Some resource \<Rightarrow> (None, w1)
                | None \<Rightarrow> (Some (NoRuntimeExists name), w1))))"

text \<open>\<open>createFunctionFromSource\<close>, create.go lines 273 to 295.\<close>

definition createFunctionFromSource ::
    "funktion \<Rightarrow> createFunctionCmd \<Rightarrow> string \<Rightarrow> string \<Rightarrow> world \<Rightarrow> (error + ConfigMap) \<times> world" where
  "createFunctionFromSource fk p name source w =
     (let runtime = p_runtime p in
      if length runtime = 0 then (Inl NoRuntimeSupplied, w)
      else
        (case checkRuntimeExists fk p runtime w of
           (Some err, w1) \<Rightarrow> (Inl err, w1)
         | (None, w1) \<Rightarrow>
             (Inr \<lparr>Name = name,
                   Labels = [KindLabel fk \<mapsto> FunctionKind fk, RuntimeLabel fk \<mapsto> runtime],
                   Data = [SourceProperty fk \<mapsto> source]\<rparr>, w1)))"

text \<open>\<open>createFunction\<close>, create.go lines 257 to 271.\<close>

definition createFunction :: "funktion \<Rightarrow> createFunctionCmd \<Rightarrow> string \<Rightarrow> world \<Rightarrow> (error + ConfigMap) \<times> world" where
  "createFunction fk p name w =
     (if length (p_source p) = 0 then
        (if length (p_file p) = 0 then (Inl NoSourceSupplied, w)
         else
           (case loadFileSource (p_file p) w of
              (Inl err, w1) \<Rightarrow> (Inl err, w1)
            | (Inr source, w1) \<Rightarrow> createFunctionFromSource fk p name source w1))
      else createFunctionFromSource fk p name (p_source p) w)"

text \<open>
  \<open>updatedFile\<close>, create.go lines 179 to 226. The loop over the listed resources stops at
  the first one with the resolved name; \<open>old\<close> is that resource, or nil.
\<close>

definition updatedFile :: "funktion \<Rightarrow> createFunctionCmd \<Rightarrow> string \<Rightarrow> world \<Rightarrow> error option \<times> world" where
  "updatedFile fk p fileName w =
     (case loadFileSource fileName w of
        (Inl err, w1) \<Rightarrow> (Some err, w1)
      | (Inr source, w1) \<Rightarrow>
     (case CreateFunctionListOptions fk of
        Inl err \<Rightarrow> (Some err, w1)
      | Inr listOpts \<Rightarrow>
     (let name = nameFromFile p fileName in
      if length name = 0 then (Some NoFunctionName, w1)
      else
     (case cms_List listOpts w1 of
        (Inl err, w2) \<Rightarrow> (Some err, w2)
      | (Inr resources, w2) \<Rightarrow>
     (let old = find (\<lambda>resource. Name resource = name) resources in
     (case createFunctionFromSource fk p name source w2 of
        (Inl err, w3) \<Rightarrow> (Some err, w3)
      | (Inr cm, w3) \<Rightarrow>
     (case old of
        Some oldcm \<Rightarrow>
          if source = lookup (Data oldcm) (SourceProperty fk) then (None, w3)
          else
            (case cms_Update cm w3 of
               (None, w4) \<Rightarrow> (None, record_action (Println [''Function'', name, ''updated'']) w4)
             | (Some err, w4) \<Rightarrow> (Some err, w4))
      | None \<Rightarrow>
          (case cms_Create cm w3 of
             (None, w4) \<Rightarrow> (None, record_action (Println [''Function'', name, ''created'']) w4)
           | (Some err, w4) \<Rightarrow> (Some err, w4)))))))))"

subsection \<open>The watch loop\<close>

text \<open>
  An event of the file watcher: the path and the operations, a bit mask in which
  \<open>fsnotify.Rename\<close> is bit 3. \<open>watcher.Add\<close> registers a path or returns an error;
  \<open>log.Fatal\<close> prints the error and ends the process.
\<close>

record Event =
  Event_Name :: string
  Op :: "32 word"

definition Rename :: "32 word" where
  "Rename = 8"

datatype status = Watching | Exited | Returned

definition log_Fatal :: "error \<Rightarrow> world \<Rightarrow> status \<times> world" where
  "log_Fatal err w = (Exited, record_action (Fatal err) w)"

definition watcher_Add :: "string \<Rightarrow> world \<Rightarrow> error option \<times> world" where
  "watcher_Add path w =
     (let w1 = record_action (WatcherAdd path) w in
      case addErrors w path of
        Some err \<Rightarrow> (Some err, w1)
      | None \<Rightarrow> (None, w1\<lparr>watching := insert path (watching w1)\<rparr>))"

text \<open>
  What the \<open>select\<close> of the loop can receive: an event, or an error of the watcher. One
  pass of the loop body, create.go lines 158 to 175, handles one of them; for an event it
  starts with lines 160 to 167, which add the watched path again when the event is a
  rename.
\<close>

datatype occurrence = EventsCase Event | ErrorsCase error

definition readd_on_rename :: "createFunctionCmd \<Rightarrow> Event \<Rightarrow> world \<Rightarrow> error option \<times> world" where
  "readd_on_rename p event w =
     (if Op event AND Rename = Rename then watcher_Add (p_file p) w else (None, w))"

definition watchSelect :: "funktion \<Rightarrow> createFunctionCmd \<Rightarrow> occurrence \<Rightarrow> world \<Rightarrow> status \<times> world" where
  "watchSelect fk p occ w =
     (case occ of
        EventsCase event \<Rightarrow>
          (case readd_on_rename p event w of
             (Some err, w1) \<Rightarrow> log_Fatal err w1
           | (None, w1) \<Rightarrow>
               (case updatedFile fk p (Event_Name event) w1 of
                  (Some err, w2) \<Rightarrow> log_Fatal err w2
                | (None, w2) \<Rightarrow> (Watching, w2)))
      | ErrorsCase err \<Rightarrow> (Watching, record_action (PrintError err) w))"

text \<open>
  The loop \<open>for { select { ... } }\<close> never ends by itself: it blocks until the watcher
  delivers something. It is run here on the finite list of what the watcher delivers; when
  the list is used up the process is blocked in \<open>select\<close>, still \<open>Watching\<close>. The
  surroundings change only by what the process does.
\<close>

fun watchLoop :: "funktion \<Rightarrow> createFunctionCmd \<Rightarrow> occurrence list \<Rightarrow> world \<Rightarrow> status \<times> world" where
  "watchLoop fk p [] w = (Watching, w)"
| "watchLoop fk p (occ # occs) w =
     (case watchSelect fk p occ w of
        (Watching, w1) \<Rightarrow> watchLoop fk p occs w1
      | (st, w1) \<Rightarrow> (st, w1))"

text \<open>\<open>watchFiles\<close>, create.go lines 139 to 177.\<close>

definition watchFiles :: "funktion \<Rightarrow> createFunctionCmd \<Rightarrow> occurrence list \<Rightarrow> world \<Rightarrow> status \<times> world" where
  "watchFiles fk p occs w =
     (let files = p_file p in
      if length files = 0 then (Returned, w)
      else
        (let w1 = record_action (Println [''Watching files: '', files]) w;
             w2 = record_action (Println [''Please press Ctrl-C to terminate'']) w1;
             w3 = record_action NewWatcher w2
         in case newWatcherError w3 of
              Some err \<Rightarrow> log_Fatal err w3
            | None \<Rightarrow>
                (case watcher_Add files w3 of
                   (Some err, w4) \<Rightarrow> log_Fatal err w4
                 | (None, w4) \<Rightarrow> watchLoop fk p occs w4)))"

section \<open>The installer\<close>










text \<open>
  Modelled from the spec: the builder of the list options for functions is not among the
  sources; the spec says listings are ``filtered by a kind/runtime label selector equivalent
  to \<open>{kind=function}\<close>''. So the options for functions, when they are built, ask for
  the function kind under the kind label, and the runtime label is another key (the Go map
  literal of the payload would not compile with the same constant key twice).
\<close>

definition selects_functions :: "funktion \<Rightarrow> bool" where
  "selects_functions fk =
     (KindLabel fk \<noteq> RuntimeLabel fk
      \<and> (case CreateFunctionListOptions fk of
            Inl err \<Rightarrow> True
          | Inr opts \<Rightarrow> opts = [(KindLabel fk, FunctionKind fk)]))"

section \<open>Concrete surroundings\<close>

text \<open>
  A namespace used to run the commands on concrete inputs: a package with the labels
  \<open>kind\<close> and \<open>runtime\<close>, the command \<open>create function -f foo.js -w\<close> with the default
  runtime \<open>nodejs\<close>, a function \<open>foo\<close> with a given source, the runtime \<open>nodejs\<close>, and a
  world with one file \<open>foo.js\<close>, a store that answers every request and a watcher that
  accepts every path; an event that reports a write to the file and one that reports a
  rename.
\<close>

definition example_funktion :: funktion where
  "example_funktion =
     \<lparr>KindLabel = ''kind'', FunctionKind = ''function'', RuntimeLabel = ''runtime'',
      SourceProperty = ''source'',
      CreateFunctionListOptions = Inr [(''kind'', ''function'')],
      CreateRuntimeListOptions = Inr [(''kind'', ''runtime'')],
      CreateConnectorListOptions = Inr [(''kind'', ''connector'')]\<rparr>"

definition example_cmd :: createFunctionCmd where
  "example_cmd =
     \<lparr>p_namespace = ''default'', p_name = [], p_runtime = ''nodejs'', p_source = [],
      p_file = ''foo.js'', p_watch = True, p_configMaps = Map.empty\<rparr>"

definition foo_with :: "string \<Rightarrow> ConfigMap" where
  "foo_with source =
     \<lparr>Name = ''foo'', Labels = [''kind'' \<mapsto> ''function'', ''runtime'' \<mapsto> ''nodejs''],
      Data = [''source'' \<mapsto> source]\<rparr>"

definition nodejs_runtime :: ConfigMap where
  "nodejs_runtime = \<lparr>Name = ''nodejs'', Labels = [''kind'' \<mapsto> ''runtime''], Data = Map.empty\<rparr>"

definition example_world :: "string option \<Rightarrow> ConfigMap list \<Rightarrow> world" where
  "example_world content objs =
     \<lparr>files = (\<lambda>path. if path = ''foo.js'' then content else None),
      objects = objs, faults = [], newWatcherError = None, addErrors = Map.empty,
      watching = {}, bundles = (\<lambda>uri. Inl (LoadError uri)), trace = []\<rparr>"

definition write_event :: Event where
  "write_event = \<lparr>Event_Name = ''foo.js'', Op = 2\<rparr>"

definition rename_event :: Event where
  "rename_event = \<lparr>Event_Name = ''foo.js'', Op = 8\<rparr>"








section \<open>Properties of name resolution\<close>

lemma Split_loop_le: "Split_loop path k \<le> k"
  by (induction k) auto

lemma Split_loop_base:
  "k \<le> length path \<Longrightarrow>
   drop (Split_loop path k) (take k path) = rev (takeWhile (\<lambda>c. c \<noteq> CHR ''/'') (rev (take k path)))"
proof (induction k)
  case 0
  then show ?case by simp
next
  case (Suc i)
  then have i: "i < length path" by simp
  have tk: "take (Suc i) path = take i path @ [path ! i]"
    using i by (simp add: take_Suc_conv_app_nth)
  show ?case
  proof (cases "path ! i = CHR ''/''")
    case True
    then show ?thesis using i by (simp add: IsPathSeparator_def tk)
  next
    case False
    have le: "Split_loop path i \<le> length (take i path)"
      using i Split_loop_le [of path i] by simp
    from False Suc.IH i le show ?thesis
      by (simp add: IsPathSeparator_def tk)
  qed
qed

lemma snd_Split: "snd (Split path) = base_name path"
  using Split_loop_base [of "length path" path]
  by (simp add: Split_def base_name_def Let_def Split_loop_le min_absorb2)

lemma base_name_no_sep: "CHR ''/'' \<notin> set (base_name P)"
proof -
  have "\<forall>c \<in> set (takeWhile (\<lambda>c. c \<noteq> CHR ''/'') (rev P)). c \<noteq> CHR ''/''"
    by (auto dest: set_takeWhileD)
  then show ?thesis by (auto simp: base_name_def)
qed

lemma Ext_loop_nodot:
  "k \<le> length b \<Longrightarrow> CHR ''.'' \<notin> set (take k b) \<Longrightarrow> Ext_loop b k = []"
proof (induction k)
  case 0
  then show ?case by simp
next
  case (Suc i)
  then have i: "i < length b" by simp
  have tk: "take (Suc i) b = take i b @ [b ! i]"
    using i by (simp add: take_Suc_conv_app_nth)
  from Suc.prems(2) tk have "b ! i \<noteq> CHR ''.''" "CHR ''.'' \<notin> set (take i b)" by auto
  with Suc.IH i show ?case by simp
qed

lemma Ext_loop_strip:
  "k \<le> length b \<Longrightarrow> CHR ''/'' \<notin> set b \<Longrightarrow> CHR ''.'' \<in> set (take k b) \<Longrightarrow>
   take (length b - length (Ext_loop b k)) b
     = rev (tl (dropWhile (\<lambda>c. c \<noteq> CHR ''.'') (rev (take k b))))
   \<and> Ext_loop b k \<noteq> []"
proof (induction k)
  case 0
  then show ?case by simp
next
  case (Suc i)
  then have i: "i < length b" by simp
  have tk: "take (Suc i) b = take i b @ [b ! i]"
    using i by (simp add: take_Suc_conv_app_nth)
  have nosep: "\<not> IsPathSeparator (b ! i)"
    unfolding IsPathSeparator_def using Suc.prems(2) i by (metis nth_mem)
  show ?case
  proof (cases "b ! i = CHR ''.''")
    case True
    then show ?thesis using i nosep by (simp add: tk)
  next
    case False
    with Suc.prems(3) tk have "CHR ''.'' \<in> set (take i b)" by auto
    with Suc.IH Suc.prems(2) i have
      "take (length b - length (Ext_loop b i)) b
         = rev (tl (dropWhile (\<lambda>c. c \<noteq> CHR ''.'') (rev (take i b)))) \<and> Ext_loop b i \<noteq> []"
      by simp
    with False nosep show ?thesis by (simp add: tk)
  qed
qed

lemma strip_Ext:
  assumes "CHR ''/'' \<notin> set b"
  shows "(if length (Ext b) > 0 then take (length b - length (Ext b)) b else b) = strip_extension b"
proof (cases "CHR ''.'' \<in> set b")
  case True
  then show ?thesis
    using Ext_loop_strip [of "length b" b] assms by (simp add: Ext_def strip_extension_def)
next
  case False
  then show ?thesis
    using Ext_loop_nodot [of "length b" b] by (simp add: Ext_def strip_extension_def)
qed

lemma nameFromFile_no_flag:
  "p_name p = [] \<Longrightarrow> P \<noteq> [] \<Longrightarrow> nameFromFile p P = strip_extension (base_name P)"
  using strip_Ext [OF base_name_no_sep, of P]
  by (simp add: nameFromFile_def Let_def snd_Split)

text \<open>
  Claim C6. \<open>nameFromFile\<close> returns the name flag unchanged whenever it is non-empty,
  whatever the path; with no name flag, a non-empty path gives its base name with the text
  from the final dot onward stripped (a base name without a dot comes back whole); with no
  name flag and an empty path the result is the empty string.
\<close>

theorem nameFromFile_resolves:
  "(p_name p \<noteq> [] \<longrightarrow> nameFromFile p P = p_name p)
   \<and> (p_name p = [] \<and> P \<noteq> [] \<longrightarrow> nameFromFile p P = strip_extension (base_name P))
   \<and> (p_name p = [] \<and> P \<noteq> [] \<and> CHR ''.'' \<notin> set (base_name P) \<longrightarrow> nameFromFile p P = base_name P)
   \<and> (p_name p = [] \<longrightarrow> nameFromFile p [] = [])"
proof -
  have "p_name p \<noteq> [] \<longrightarrow> nameFromFile p P = p_name p"
    by (simp add: nameFromFile_def)
  moreover have "p_name p = [] \<and> P \<noteq> [] \<longrightarrow> nameFromFile p P = strip_extension (base_name P)"
    by (simp add: nameFromFile_no_flag)
  moreover have "p_name p = [] \<and> P \<noteq> [] \<and> CHR ''.'' \<notin> set (base_name P)
      \<longrightarrow> nameFromFile p P = base_name P"
    by (simp add: nameFromFile_no_flag strip_extension_def)
  moreover have "p_name p = [] \<longrightarrow> nameFromFile p [] = []"
    by (simp add: nameFromFile_def)
  ultimately show ?thesis by blast
qed

theorem nameFromFile_resolves_witness:
  "nameFromFile \<lparr>p_namespace = [], p_name = ''hello'', p_runtime = ''nodejs'', p_source = [],
      p_file = ''src/foo.js'', p_watch = True, p_configMaps = Map.empty\<rparr> ''src/foo.js'' = ''hello''
   \<and> nameFromFile \<lparr>p_namespace = [], p_name = [], p_runtime = ''nodejs'', p_source = [],
      p_file = ''src/foo.tar.gz'', p_watch = True, p_configMaps = Map.empty\<rparr> ''src/foo.tar.gz'' = ''foo.tar''
   \<and> nameFromFile \<lparr>p_namespace = [], p_name = [], p_runtime = ''nodejs'', p_source = [],
      p_file = ''src/Makefile'', p_watch = True, p_configMaps = Map.empty\<rparr> ''src/Makefile'' = ''Makefile''
   \<and> nameFromFile \<lparr>p_namespace = [], p_name = [], p_runtime = ''nodejs'', p_source = [],
      p_file = [], p_watch = True, p_configMaps = Map.empty\<rparr> [] = []"
  using nameFromFile_resolves [of "\<lparr>p_namespace = [], p_name = ''hello'', p_runtime = ''nodejs'',
      p_source = [], p_file = ''src/foo.js'', p_watch = True, p_configMaps = Map.empty\<rparr>" "''src/foo.js''"]
    nameFromFile_resolves [of "\<lparr>p_namespace = [], p_name = [], p_runtime = ''nodejs'',
      p_source = [], p_file = ''src/foo.tar.gz'', p_watch = True, p_configMaps = Map.empty\<rparr>" "''src/foo.tar.gz''"]
    nameFromFile_resolves [of "\<lparr>p_namespace = [], p_name = [], p_runtime = ''nodejs'',
      p_source = [], p_file = ''src/Makefile'', p_watch = True, p_configMaps = Map.empty\<rparr>" "''src/Makefile''"]
    nameFromFile_resolves [of "\<lparr>p_namespace = [], p_name = [], p_runtime = ''nodejs'',
      p_source = [], p_file = [], p_watch = True, p_configMaps = Map.empty\<rparr>" "[]"]
  by (simp add: base_name_def strip_extension_def)

section \<open>Properties of name generation\<close>














section \<open>Properties of the store and of one reconciliation\<close>

lemma issued_append: "trace w' = trace w @ tr \<Longrightarrow> issued w w' = tr"
  by (simp add: issued_def)

lemma request_effect:
  "request a w = (failed, w1) \<Longrightarrow>
     trace w1 = trace w @ [a] \<and> objects w1 = objects w \<and> files w1 = files w
     \<and> watching w1 = watching w \<and> addErrors w1 = addErrors w"
  by (auto simp: request_def record_action_def split: list.splits)

lemma cms_List_effect:
  "cms_List opts w = (r, w1) \<Longrightarrow>
     trace w1 = trace w @ [StoreList opts] \<and> objects w1 = objects w \<and> files w1 = files w
     \<and> watching w1 = watching w \<and> addErrors w1 = addErrors w
     \<and> (\<forall>items. r = Inr items \<longrightarrow> items = filter (matches opts) (objects w))"
  by (auto simp: cms_List_def split: prod.splits bool.splits dest: request_effect)

lemma cms_Create_effect:
  "cms_Create cm w = (r, w1) \<Longrightarrow>
     trace w1 = trace w @ [StoreCreate cm] \<and> files w1 = files w
     \<and> watching w1 = watching w \<and> addErrors w1 = addErrors w
     \<and> (r = None \<longrightarrow> \<not> list_ex (\<lambda>obj. Name obj = Name cm) (objects w) \<and> objects w1 = objects w @ [cm])
     \<and> (r \<noteq> None \<longrightarrow> objects w1 = objects w)"
  by (auto simp: cms_Create_def split: prod.splits bool.splits if_splits dest: request_effect)

lemma cms_Update_effect:
  "cms_Update cm w = (r, w1) \<Longrightarrow>
     trace w1 = trace w @ [StoreUpdate cm] \<and> files w1 = files w
     \<and> watching w1 = watching w \<and> addErrors w1 = addErrors w
     \<and> (r = None \<longrightarrow> list_ex (\<lambda>obj. Name obj = Name cm) (objects w)
           \<and> objects w1 = map (\<lambda>obj. if Name obj = Name cm then cm else obj) (objects w))
     \<and> (r \<noteq> None \<longrightarrow> objects w1 = objects w)"
  by (auto simp: cms_Update_def split: prod.splits bool.splits if_splits dest: request_effect)

lemma loadFileSource_effect:
  "loadFileSource f w = (r, w1) \<Longrightarrow>
     w1 = record_action (ReadFile f) w
     \<and> (\<forall>s. r = Inr s \<longrightarrow> files w f = Some s \<and> s \<noteq> [])
     \<and> (files w f = None \<longrightarrow> r = Inl (ReadError f))
     \<and> (files w f = Some [] \<longrightarrow> r = Inl (EmptyFile f))"
  by (auto simp: loadFileSource_def Let_def split: option.splits if_splits)

lemma checkRuntimeExists_effect:
  "checkRuntimeExists fk p name w = (r, w1) \<Longrightarrow>
     (\<exists>tr. trace w1 = trace w @ tr \<and> writes tr = [])
     \<and> objects w1 = objects w \<and> files w1 = files w
     \<and> watching w1 = watching w \<and> addErrors w1 = addErrors w"
  by (auto simp: checkRuntimeExists_def writes_def split: sum.splits prod.splits option.splits
      dest!: cms_List_effect)

lemma createFunctionFromSource_effect:
  "createFunctionFromSource fk p name source w = (r, w1) \<Longrightarrow>
     (\<exists>tr. trace w1 = trace w @ tr \<and> writes tr = [])
     \<and> objects w1 = objects w \<and> files w1 = files w
     \<and> watching w1 = watching w \<and> addErrors w1 = addErrors w
     \<and> (\<forall>cm. r = Inr cm \<longrightarrow> cm = \<lparr>Name = name,
            Labels = [KindLabel fk \<mapsto> FunctionKind fk, RuntimeLabel fk \<mapsto> p_runtime p],
            Data = [SourceProperty fk \<mapsto> source]\<rparr>)"
  by (auto simp: createFunctionFromSource_def Let_def writes_def split: if_splits prod.splits option.splits
      dest!: checkRuntimeExists_effect)


lemma writes_simps [simp]:
  "writes [] = []"
  "writes (a # as) = (if is_write a then a # writes as else writes as)"
  "writes (xs @ ys) = writes xs @ writes ys"
  by (simp_all add: writes_def)

lemma updatedFile_unfold:
  assumes "loadFileSource f w = (Inr source, w1)"
    and "CreateFunctionListOptions fk = Inr listOpts"
    and "nameFromFile p f = name" and "name \<noteq> []"
    and "cms_List listOpts w1 = (Inr resources, w2)"
    and "createFunctionFromSource fk p name source w2 = (Inr cm, w3)"
  shows "updatedFile fk p f w =
     (case find (\<lambda>resource. Name resource = name) resources of
        Some oldcm \<Rightarrow>
          if source = lookup (Data oldcm) (SourceProperty fk) then (None, w3)
          else
            (case cms_Update cm w3 of
               (None, w4) \<Rightarrow> (None, record_action (Println [''Function'', name, ''updated'']) w4)
             | (Some err, w4) \<Rightarrow> (Some err, w4))
      | None \<Rightarrow>
          (case cms_Create cm w3 of
             (None, w4) \<Rightarrow> (None, record_action (Println [''Function'', name, ''created'']) w4)
           | (Some err, w4) \<Rightarrow> (Some err, w4)))"
  using assms by (simp add: updatedFile_def Let_def)

lemma record_action_simps [simp]:
  "trace (record_action a w) = trace w @ [a]"
  "objects (record_action a w) = objects w"
  "files (record_action a w) = files w"
  "faults (record_action a w) = faults w"
  "watching (record_action a w) = watching w"
  "addErrors (record_action a w) = addErrors w"
  by (simp_all add: record_action_def)

lemma updatedFile_effect:
  "updatedFile fk p f w = (r, w') \<Longrightarrow>
     (\<exists>tr. trace w' = trace w @ tr \<and> length (writes tr) \<le> 1)
     \<and> files w' = files w \<and> watching w' = watching w \<and> addErrors w' = addErrors w"
  apply (simp add: updatedFile_def Let_def
      split: prod.splits sum.splits if_splits option.splits)
  apply (auto dest!: loadFileSource_effect cms_List_effect createFunctionFromSource_effect
      cms_Update_effect cms_Create_effect)
  done


lemma updatedFile_skip:
  assumes "files w f = Some source"
    and "CreateFunctionListOptions fk = Inr listOpts"
    and "find (\<lambda>resource. Name resource = nameFromFile p f) (filter (matches listOpts) (objects w)) = Some old"
    and "lookup (Data old) (SourceProperty fk) = source"
    and "updatedFile fk p f w = (r, w')"
  shows "writes (issued w w') = []"
  using assms
  apply (simp add: updatedFile_def Let_def
      split: prod.splits sum.splits if_splits option.splits)
  apply (auto simp: issued_def dest!: loadFileSource_effect cms_List_effect createFunctionFromSource_effect
      cms_Update_effect cms_Create_effect)
  done

lemma find_unique:
  "distinct (map Name xs) \<Longrightarrow> old \<in> set xs \<Longrightarrow> 
   find (\<lambda>resource. Name resource = Name old) xs = Some old"
  by (induction xs) (auto simp: image_iff)

lemma updatedFile_written:
  assumes "updatedFile fk p f w = (None, w')" and "writes (issued w w') \<noteq> []"
  shows "\<exists>listOpts source cm. CreateFunctionListOptions fk = Inr listOpts \<and> files w f = Some source
     \<and> cm = \<lparr>Name = nameFromFile p f,
            Labels = [KindLabel fk \<mapsto> FunctionKind fk, RuntimeLabel fk \<mapsto> p_runtime p],
            Data = [SourceProperty fk \<mapsto> source]\<rparr>
     \<and> ((\<not> list_ex (\<lambda>obj. Name obj = Name cm) (objects w) \<and> objects w' = objects w @ [cm])
        \<or> (list_ex (\<lambda>obj. Name obj = Name cm) (objects w)
           \<and> objects w' = map (\<lambda>obj. if Name obj = Name cm then cm else obj) (objects w)))"
  using assms
  apply (simp add: updatedFile_def Let_def
      split: prod.splits sum.splits if_splits option.splits)
  apply (auto simp: issued_def dest!: loadFileSource_effect cms_List_effect createFunctionFromSource_effect
      cms_Update_effect cms_Create_effect split: option.splits if_splits)
  done


lemma watcher_Add_effect:
  "watcher_Add path w = (r, w1) \<Longrightarrow>
     trace w1 = trace w @ [WatcherAdd path] \<and> files w1 = files w \<and> objects w1 = objects w
     \<and> faults w1 = faults w \<and> (r = None \<longrightarrow> path \<in> watching w1)"
  by (auto simp: watcher_Add_def Let_def split: option.splits)

lemma watchSelect_event:
  assumes "watchSelect fk p (EventsCase ev) w = (st, w1)"
  shows "\<exists>wa pre. trace wa = trace w @ pre \<and> writes pre = [] \<and> files wa = files w
           \<and> objects wa = objects w
           \<and> ((\<exists>err. st = Exited \<and> w1 = record_action (Fatal err) wa)
              \<or> (\<exists>r wu. updatedFile fk p (Event_Name ev) wa = (r, wu)
                   \<and> ((r = None \<and> st = Watching \<and> w1 = wu)
                      \<or> (\<exists>err. r = Some err \<and> st = Exited \<and> w1 = record_action (Fatal err) wu))))"
proof (cases "Op ev AND Rename = Rename")
  case False
  obtain r wu where u: "updatedFile fk p (Event_Name ev) w = (r, wu)" by (cases "updatedFile fk p (Event_Name ev) w")
  from assms False u have "(r = None \<and> st = Watching \<and> w1 = wu)
                      \<or> (\<exists>err. r = Some err \<and> st = Exited \<and> w1 = record_action (Fatal err) wu)"
    by (auto simp: watchSelect_def readd_on_rename_def log_Fatal_def split: option.splits)
  with u show ?thesis by (intro exI [of _ w] exI [of _ "[]"]) auto
next
  case True
  obtain ra wa where a: "watcher_Add (p_file p) w = (ra, wa)" by (cases "watcher_Add (p_file p) w")
  note ae = watcher_Add_effect [OF a]
  show ?thesis
  proof (cases ra)
    case (Some err)
    with assms True a have "st = Exited \<and> w1 = record_action (Fatal err) wa"
      by (auto simp: watchSelect_def readd_on_rename_def log_Fatal_def)
    with ae show ?thesis by (intro exI [of _ wa] exI [of _ "[WatcherAdd (p_file p)]"]) auto
  next
    case None
    obtain r wu where u: "updatedFile fk p (Event_Name ev) wa = (r, wu)" by (cases "updatedFile fk p (Event_Name ev) wa")
    from assms True a None u have "(r = None \<and> st = Watching \<and> w1 = wu)
                      \<or> (\<exists>err. r = Some err \<and> st = Exited \<and> w1 = record_action (Fatal err) wu)"
      by (auto simp: watchSelect_def readd_on_rename_def log_Fatal_def split: option.splits)
    with u ae show ?thesis by (intro exI [of _ wa] exI [of _ "[WatcherAdd (p_file p)]"]) auto
  qed
qed

lemma payload_listed:
  assumes "selects_functions fk" and "CreateFunctionListOptions fk = Inr listOpts"
  shows "matches listOpts \<lparr>Name = n,
            Labels = [KindLabel fk \<mapsto> FunctionKind fk, RuntimeLabel fk \<mapsto> rt], Data = d\<rparr>"
  using assms by (auto simp: selects_functions_def matches_def)

lemma find_after_create:
  "\<not> list_ex Q xs \<Longrightarrow> Q cm \<Longrightarrow> find Q (filter P xs @ [cm]) = Some cm"
  by (induction xs) auto

lemma find_after_update:
  "list_ex (\<lambda>obj. Name obj = Name cm) xs \<Longrightarrow> P cm \<Longrightarrow>
   find (\<lambda>obj. Name obj = Name cm) (filter P (map (\<lambda>obj. if Name obj = Name cm then cm else obj) xs)) = Some cm"
  by (induction xs) auto


lemma updatedFile_then_skip:
  assumes sf: "selects_functions fk"
    and u1: "updatedFile fk p f w = (None, w1)"
    and wr: "writes (issued w w1) \<noteq> []"
    and fs: "files wa f = files w f" and ob: "objects wa = objects w1"
    and u2: "updatedFile fk p f wa = (r2, w2)"
  shows "writes (issued wa w2) = []"
proof -
  from updatedFile_written [OF u1 wr] obtain listOpts source cm where
    lo: "CreateFunctionListOptions fk = Inr listOpts" and src: "files w f = Some source"
    and cm: "cm = \<lparr>Name = nameFromFile p f,
            Labels = [KindLabel fk \<mapsto> FunctionKind fk, RuntimeLabel fk \<mapsto> p_runtime p],
            Data = [SourceProperty fk \<mapsto> source]\<rparr>"
    and st: "(\<not> list_ex (\<lambda>obj. Name obj = Name cm) (objects w) \<and> objects w1 = objects w @ [cm])
        \<or> (list_ex (\<lambda>obj. Name obj = Name cm) (objects w)
           \<and> objects w1 = map (\<lambda>obj. if Name obj = Name cm then cm else obj) (objects w))"
    by blast
  have m: "matches listOpts cm" unfolding cm by (rule payload_listed [OF sf lo])
  have n: "Name cm = nameFromFile p f" by (simp add: cm)
  have "find (\<lambda>obj. Name obj = Name cm) (filter (matches listOpts) (objects w1)) = Some cm"
    using st
  proof
    assume "\<not> list_ex (\<lambda>obj. Name obj = Name cm) (objects w) \<and> objects w1 = objects w @ [cm]"
    then show ?thesis using m by (simp add: find_after_create)
  next
    assume "list_ex (\<lambda>obj. Name obj = Name cm) (objects w)
           \<and> objects w1 = map (\<lambda>obj. if Name obj = Name cm then cm else obj) (objects w)"
    then show ?thesis using m by (simp add: find_after_update)
  qed
  then have f: "find (\<lambda>resource. Name resource = nameFromFile p f) (filter (matches listOpts) (objects wa)) = Some cm"
    by (simp add: n ob)
  have l: "lookup (Data cm) (SourceProperty fk) = source" by (simp add: cm lookup_def)
  from fs src have "files wa f = Some source" by simp
  from updatedFile_skip [OF this lo f l u2] show ?thesis .
qed

lemma two_events_one_write:
  assumes sf: "selects_functions fk" and same: "Event_Name ev1 = Event_Name ev2"
    and run: "watchLoop fk p [EventsCase ev1, EventsCase ev2] w = (st, w')"
  shows "length (writes (issued w w')) \<le> 1"
proof -
  obtain st1 w1 where s1: "watchSelect fk p (EventsCase ev1) w = (st1, w1)"
    by (cases "watchSelect fk p (EventsCase ev1) w")
  from watchSelect_event [OF s1] obtain wa pre where
    a: "trace wa = trace w @ pre" "writes pre = []" "files wa = files w" "objects wa = objects w"
    and c: "(\<exists>err. st1 = Exited \<and> w1 = record_action (Fatal err) wa)
              \<or> (\<exists>r wu. updatedFile fk p (Event_Name ev1) wa = (r, wu)
                   \<and> ((r = None \<and> st1 = Watching \<and> w1 = wu)
                      \<or> (\<exists>err. r = Some err \<and> st1 = Exited \<and> w1 = record_action (Fatal err) wu)))"
    by blast
  from c show ?thesis
  proof (elim disjE exE conjE)
    fix err assume "st1 = Exited" "w1 = record_action (Fatal err) wa"
    with run s1 have "w' = record_action (Fatal err) wa" by simp
    with a have "issued w w' = pre @ [Fatal err]" by (simp add: issued_def)
    with a show ?thesis by simp
  next
    fix r wu err
    assume u: "updatedFile fk p (Event_Name ev1) wa = (r, wu)"
      and "r = Some err" "st1 = Exited" "w1 = record_action (Fatal err) wu"
    moreover from updatedFile_effect [OF u] obtain tr where "trace wu = trace wa @ tr" "length (writes tr) \<le> 1"
      by blast
    moreover from calculation run s1 have "w' = record_action (Fatal err) wu" by simp
    ultimately have "issued w w' = pre @ tr @ [Fatal err]" using a by (simp add: issued_def)
    with a \<open>length (writes tr) \<le> 1\<close> show ?thesis by simp
  next
    fix r wu
    assume u: "updatedFile fk p (Event_Name ev1) wa = (r, wu)"
      and r: "r = None" and st1: "st1 = Watching" and w1: "w1 = wu"
    from updatedFile_effect [OF u] obtain tr where
      tr: "trace wu = trace wa @ tr" "length (writes tr) \<le> 1" and fu: "files wu = files wa"
      by blast
    obtain st2 w2 where s2: "watchSelect fk p (EventsCase ev2) w1 = (st2, w2)"
      by (cases "watchSelect fk p (EventsCase ev2) w1")
    from run s1 s2 st1 have fin: "w' = w2" by (cases st2) simp_all
    from watchSelect_event [OF s2] obtain wb pre2 where
      b: "trace wb = trace w1 @ pre2" "writes pre2 = []" "files wb = files w1" "objects wb = objects w1"
      and d: "(\<exists>err. st2 = Exited \<and> w2 = record_action (Fatal err) wb)
              \<or> (\<exists>r wu. updatedFile fk p (Event_Name ev2) wb = (r, wu)
                   \<and> ((r = None \<and> st2 = Watching \<and> w2 = wu)
                      \<or> (\<exists>err. r = Some err \<and> st2 = Exited \<and> w2 = record_action (Fatal err) wu)))"
      by blast
    have sk: "writes (issued wb wv) = []"
      if "writes tr \<noteq> []" and v: "updatedFile fk p (Event_Name ev2) wb = (r2, wv)" for r2 wv
    proof -
      from that tr have wr: "writes (issued wa wu) \<noteq> []" by (simp add: issued_def)
      show ?thesis
      proof (rule updatedFile_then_skip [OF sf _ wr _ _])
        show "updatedFile fk p (Event_Name ev2) wa = (None, wu)" using u r same by simp
        show "files wb (Event_Name ev2) = files wa (Event_Name ev2)" using b fu w1 by simp
        show "objects wb = objects wu" using b w1 by simp
        show "updatedFile fk p (Event_Name ev2) wb = (r2, wv)" by (rule v)
      qed
    qed
    have "\<exists>post. trace w2 = trace wb @ post \<and> length (writes post) \<le> 1
            \<and> (writes tr \<noteq> [] \<longrightarrow> writes post = [])"
      using d
    proof (elim disjE exE conjE)
      fix err assume "st2 = Exited" "w2 = record_action (Fatal err) wb"
      then show ?thesis by (intro exI [of _ "[Fatal err]"]) simp
    next
      fix r2 wv
      assume v: "updatedFile fk p (Event_Name ev2) wb = (r2, wv)" and e: "w2 = wv"
      from updatedFile_effect [OF v] obtain tv where
        tv: "trace wv = trace wb @ tv" "length (writes tv) \<le> 1" by blast
      from sk [OF _ v] tv have "writes tr \<noteq> [] \<longrightarrow> writes tv = []" by (simp add: issued_def)
      with tv e show ?thesis by (intro exI [of _ tv]) simp
    next
      fix r2 wv err
      assume v: "updatedFile fk p (Event_Name ev2) wb = (r2, wv)"
        and e: "w2 = record_action (Fatal err) wv"
      from updatedFile_effect [OF v] obtain tv where
        tv: "trace wv = trace wb @ tv" "length (writes tv) \<le> 1" by blast
      from sk [OF _ v] tv have "writes tr \<noteq> [] \<longrightarrow> writes tv = []" by (simp add: issued_def)
      with tv e show ?thesis by (intro exI [of _ "tv @ [Fatal err]"]) simp
    qed
    then obtain post where post: "trace w2 = trace wb @ post" "length (writes post) \<le> 1"
      "writes tr \<noteq> [] \<longrightarrow> writes post = []" by blast
    have "issued w w' = pre @ tr @ pre2 @ post"
      using a tr b post w1 fin by (simp add: issued_def)
    then have "writes (issued w w') = writes tr @ writes post" using a b by simp
    then show ?thesis using tr post by (cases "writes tr") auto
  qed
qed

lemma find_listed:
  assumes "distinct (map Name objs)" and "old \<in> set objs" and "P old"
  shows "find (\<lambda>resource. Name resource = Name old) (filter P objs) = Some old"
proof (rule find_unique)
  show "distinct (map Name (filter P objs))" using assms(1) by (rule distinct_map_filter)
  show "old \<in> set (filter P objs)" using assms(2,3) by simp
qed

lemmas example_defs = example_funktion_def example_cmd_def foo_with_def nodejs_runtime_def
  example_world_def write_event_def rename_event_def

lemmas run_defs = updatedFile_def loadFileSource_def cms_List_def cms_Create_def cms_Update_def
  request_def record_action_def createFunctionFromSource_def checkRuntimeExists_def matches_def
  lookup_def issued_def writes_def Let_def

lemma example_name: "nameFromFile example_cmd ''foo.js'' = ''foo''"
  by (simp add: nameFromFile_no_flag example_cmd_def base_name_def strip_extension_def)

section \<open>Skipping unchanged content\<close>

text \<open>
  Claim C1. In a reconciliation (\<open>updatedFile\<close>), if the store, whose names are unique,
  holds a function resource under the resolved name whose stored source text equals the
  text just read from the file, then no Create and no Update request is issued; this
  holds for every command, whatever its runtime flag, and whatever labels the stored
  resource carries. Hence the watch loop, handling two events for the same file while
  neither the file nor the store is touched by anyone else, issues at most one Create
  or Update request in all.
\<close>

theorem unchanged_source_no_write:
  "(files w f = Some source \<and> CreateFunctionListOptions fk = Inr listOpts
      \<and> distinct (map Name (objects w)) \<and> old \<in> set (objects w) \<and> matches listOpts old
      \<and> Name old = nameFromFile p f \<and> lookup (Data old) (SourceProperty fk) = source
     \<longrightarrow> writes (issued w (snd (updatedFile fk p f w))) = [])
   \<and> (selects_functions fk \<and> Event_Name ev1 = Event_Name ev2
     \<longrightarrow> length (writes (issued v (snd (watchLoop fk p [EventsCase ev1, EventsCase ev2] v)))) \<le> 1)"
proof (intro conjI impI)
  assume a: "files w f = Some source \<and> CreateFunctionListOptions fk = Inr listOpts
      \<and> distinct (map Name (objects w)) \<and> old \<in> set (objects w) \<and> matches listOpts old
      \<and> Name old = nameFromFile p f \<and> lookup (Data old) (SourceProperty fk) = source"
  then have "find (\<lambda>resource. Name resource = Name old) (filter (matches listOpts) (objects w)) = Some old"
    by (intro find_listed) simp_all
  with a have f: "find (\<lambda>resource. Name resource = nameFromFile p f)
      (filter (matches listOpts) (objects w)) = Some old" by simp
  obtain r w' where u: "updatedFile fk p f w = (r, w')" by (cases "updatedFile fk p f w")
  from a f u have "writes (issued w w') = []" by (intro updatedFile_skip [of w f source fk listOpts p old r w']) simp_all
  with u show "writes (issued w (snd (updatedFile fk p f w))) = []" by simp
next
  assume b: "selects_functions fk \<and> Event_Name ev1 = Event_Name ev2"
  obtain st v' where run: "watchLoop fk p [EventsCase ev1, EventsCase ev2] v = (st, v')"
    by (cases "watchLoop fk p [EventsCase ev1, EventsCase ev2] v")
  from b run have "length (writes (issued v v')) \<le> 1"
    by (intro two_events_one_write [of fk ev1 ev2 p v st v']) simp_all
  with run show "length (writes (issued v (snd (watchLoop fk p [EventsCase ev1, EventsCase ev2] v)))) \<le> 1"
    by simp
qed

theorem unchanged_source_no_write_witness:
  "files (example_world (Some ''A'') [foo_with ''A'', nodejs_runtime]) ''foo.js'' = Some ''A''
   \<and> distinct (map Name (objects (example_world (Some ''A'') [foo_with ''A'', nodejs_runtime])))
   \<and> matches [(''kind'', ''function'')] (foo_with ''A'')
   \<and> Name (foo_with ''A'') = nameFromFile example_cmd ''foo.js''
   \<and> writes (issued (example_world (Some ''A'') [foo_with ''A'', nodejs_runtime])
        (snd (updatedFile example_funktion example_cmd ''foo.js''
               (example_world (Some ''A'') [foo_with ''A'', nodejs_runtime])))) = []
   \<and> selects_functions example_funktion
   \<and> length (writes (issued (example_world (Some ''B'') [foo_with ''A'', nodejs_runtime])
        (snd (watchLoop example_funktion example_cmd [EventsCase write_event, EventsCase write_event]
               (example_world (Some ''B'') [foo_with ''A'', nodejs_runtime]))))) \<le> 1"
  using unchanged_source_no_write [of "example_world (Some ''A'') [foo_with ''A'', nodejs_runtime]"
      "''foo.js''" "''A''" example_funktion "[(''kind'', ''function'')]" "foo_with ''A''" example_cmd
      write_event write_event "example_world (Some ''B'') [foo_with ''A'', nodejs_runtime]"]
  by (simp add: example_defs selects_functions_def matches_def lookup_def
      example_name [unfolded example_cmd_def])

section \<open>The write step\<close>

lemma loadFileSource_ok:
  "files w f = Some source \<Longrightarrow> source \<noteq> [] \<Longrightarrow>
   loadFileSource f w = (Inr source, record_action (ReadFile f) w)"
  by (simp add: loadFileSource_def Let_def)

lemma reach_write:
  assumes fl: "files w f = Some source" "source \<noteq> []"
    and lo: "CreateFunctionListOptions fk = Inr listOpts"
    and nm: "nameFromFile p f = name" "name \<noteq> []"
    and ls: "cms_List listOpts (record_action (ReadFile f) w) = (Inr resources, w2)"
    and pl: "createFunctionFromSource fk p name source w2 = (Inr cm, w3)"
  shows "(\<forall>old. find (\<lambda>resource. Name resource = name) resources = Some old
            \<and> lookup (Data old) (SourceProperty fk) \<noteq> source
          \<longrightarrow> writes (issued w (snd (updatedFile fk p f w))) = [StoreUpdate cm])
       \<and> (find (\<lambda>resource. Name resource = name) resources = None
          \<longrightarrow> writes (issued w (snd (updatedFile fk p f w))) = [StoreCreate cm])
       \<and> Name cm = name \<and> Data cm (SourceProperty fk) = Some source"
proof -
  note unf = updatedFile_unfold [OF loadFileSource_ok [OF fl] lo nm ls pl]
  from cms_List_effect [OF ls] have t2: "trace w2 = trace w @ [ReadFile f, StoreList listOpts]" by simp
  from createFunctionFromSource_effect [OF pl] obtain tr where
    t3: "trace w3 = trace w2 @ tr" "writes tr = []"
    and cm: "cm = \<lparr>Name = name,
            Labels = [KindLabel fk \<mapsto> FunctionKind fk, RuntimeLabel fk \<mapsto> p_runtime p],
            Data = [SourceProperty fk \<mapsto> source]\<rparr>" by blast
  obtain ru wu where up: "cms_Update cm w3 = (ru, wu)" by (cases "cms_Update cm w3")
  obtain rc wc where cr: "cms_Create cm w3 = (rc, wc)" by (cases "cms_Create cm w3")
  from cms_Update_effect [OF up] have tu: "trace wu = trace w3 @ [StoreUpdate cm]" by simp
  from cms_Create_effect [OF cr] have tc: "trace wc = trace w3 @ [StoreCreate cm]" by simp
  have A: "writes (issued w (snd (updatedFile fk p f w))) = [StoreUpdate cm]"
    if "find (\<lambda>resource. Name resource = name) resources = Some old"
      and "lookup (Data old) (SourceProperty fk) \<noteq> source" for old
    using that unf up tu t3 t2 by (cases ru) (auto simp: issued_def)
  have B: "writes (issued w (snd (updatedFile fk p f w))) = [StoreCreate cm]"
    if "find (\<lambda>resource. Name resource = name) resources = None"
    using that unf cr tc t3 t2 by (cases rc) (auto simp: issued_def)
  from A B cm show ?thesis by auto
qed

text \<open>
  Claim C2, as stated, fails: the file \<open>foo.js\<close> holds \<open>B\<close>, the store holds the function
  \<open>foo\<close> with source \<open>A\<close>, but the runtime \<open>nodejs\<close> of the command is not registered.
  The reconciliation stops at the runtime check and issues no Update.
\<close>

theorem update_needs_runtime_counterexample:
  "files (example_world (Some ''B'') [foo_with ''A'']) ''foo.js'' = Some ''B''
   \<and> foo_with ''A'' \<in> set (objects (example_world (Some ''B'') [foo_with ''A'']))
   \<and> Name (foo_with ''A'') = nameFromFile example_cmd ''foo.js''
   \<and> lookup (Data (foo_with ''A'')) (SourceProperty example_funktion) \<noteq> ''B''
   \<and> writes (issued (example_world (Some ''B'') [foo_with ''A''])
        (snd (updatedFile example_funktion example_cmd ''foo.js''
               (example_world (Some ''B'') [foo_with ''A''])))) = []
   \<and> fst (updatedFile example_funktion example_cmd ''foo.js''
               (example_world (Some ''B'') [foo_with ''A''])) = Some (NoRuntimeExists ''nodejs'')"
  by (simp add: run_defs example_defs example_name [unfolded example_cmd_def])

text \<open>
  Claim C2, amended. For every reconciliation that reaches the write step, that is, the
  file is read and is not empty, a name is resolved, the List of functions succeeds (its
  names unique) and the payload is built (a runtime is configured and found by a
  successful List of runtimes): if the resolved name matches a listed resource with
  different source text, exactly one Update request is issued, carrying the new source
  text, and no Create; if it matches no listed resource, exactly one Create request is
  issued and no Update.
\<close>

theorem write_step_update_or_create:
  "files w f = Some source \<and> source \<noteq> [] \<and> CreateFunctionListOptions fk = Inr listOpts
   \<and> nameFromFile p f = name \<and> name \<noteq> []
   \<and> cms_List listOpts (record_action (ReadFile f) w) = (Inr resources, w2)
   \<and> distinct (map Name resources)
   \<and> createFunctionFromSource fk p name source w2 = (Inr cm, w3)
   \<longrightarrow> ((\<exists>old\<in>set resources. Name old = name \<and> lookup (Data old) (SourceProperty fk) \<noteq> source)
          \<longrightarrow> writes (issued w (snd (updatedFile fk p f w))) = [StoreUpdate cm]
              \<and> Name cm = name \<and> Data cm (SourceProperty fk) = Some source)
      \<and> ((\<forall>old\<in>set resources. Name old \<noteq> name)
          \<longrightarrow> writes (issued w (snd (updatedFile fk p f w))) = [StoreCreate cm]
              \<and> Name cm = name \<and> Data cm (SourceProperty fk) = Some source)"
proof (intro impI conjI; elim conjE)
  assume fl: "files w f = Some source" "source \<noteq> []"
    and lo: "CreateFunctionListOptions fk = Inr listOpts"
    and nm: "nameFromFile p f = name" "name \<noteq> []"
    and ls: "cms_List listOpts (record_action (ReadFile f) w) = (Inr resources, w2)"
    and pl: "createFunctionFromSource fk p name source w2 = (Inr cm, w3)"
  note rw = reach_write [OF fl lo nm ls pl]
  {
    assume di: "distinct (map Name resources)"
      and ex: "\<exists>old\<in>set resources. Name old = name \<and> lookup (Data old) (SourceProperty fk) \<noteq> source"
    then obtain old where old: "old \<in> set resources" "Name old = name"
      "lookup (Data old) (SourceProperty fk) \<noteq> source" by blast
    from find_unique [OF di old(1)] old(2)
    have "find (\<lambda>resource. Name resource = name) resources = Some old" by simp
    with rw old(3) show "writes (issued w (snd (updatedFile fk p f w))) = [StoreUpdate cm]" by blast
  }
  {
    assume "\<forall>old\<in>set resources. Name old \<noteq> name"
    then have "find (\<lambda>resource. Name resource = name) resources = None"
      by (simp add: find_None_iff)
    with rw show "writes (issued w (snd (updatedFile fk p f w))) = [StoreCreate cm]" by blast
  }
  from rw show "Name cm = name" "Data cm (SourceProperty fk) = Some source"
    "Name cm = name" "Data cm (SourceProperty fk) = Some source" by simp_all
qed

theorem write_step_update_or_create_witness:
  "writes (issued (example_world (Some ''B'') [foo_with ''A'', nodejs_runtime])
        (snd (updatedFile example_funktion example_cmd ''foo.js''
               (example_world (Some ''B'') [foo_with ''A'', nodejs_runtime]))))
     = [StoreUpdate (foo_with ''B'')]
   \<and> writes (issued (example_world (Some ''X'') [nodejs_runtime])
        (snd (updatedFile example_funktion example_cmd ''foo.js''
               (example_world (Some ''X'') [nodejs_runtime]))))
     = [StoreCreate (foo_with ''X'')]"
  using write_step_update_or_create [of "example_world (Some ''B'') [foo_with ''A'', nodejs_runtime]"
      "''foo.js''" "''B''" example_funktion "[(''kind'', ''function'')]" example_cmd "''foo''"
      "[foo_with ''A'']"
      "snd (cms_List [(''kind'', ''function'')]
         (record_action (ReadFile ''foo.js'') (example_world (Some ''B'') [foo_with ''A'', nodejs_runtime])))"
      "foo_with ''B''"
      "snd (createFunctionFromSource example_funktion example_cmd ''foo'' ''B''
         (snd (cms_List [(''kind'', ''function'')]
           (record_action (ReadFile ''foo.js'') (example_world (Some ''B'') [foo_with ''A'', nodejs_runtime])))))"]
    write_step_update_or_create [of "example_world (Some ''X'') [nodejs_runtime]"
      "''foo.js''" "''X''" example_funktion "[(''kind'', ''function'')]" example_cmd "''foo''"
      "[]"
      "snd (cms_List [(''kind'', ''function'')]
         (record_action (ReadFile ''foo.js'') (example_world (Some ''X'') [nodejs_runtime])))"
      "foo_with ''X''"
      "snd (createFunctionFromSource example_funktion example_cmd ''foo'' ''X''
         (snd (cms_List [(''kind'', ''function'')]
           (record_action (ReadFile ''foo.js'') (example_world (Some ''X'') [nodejs_runtime])))))"]
  by (simp add: run_defs example_defs example_name [unfolded example_cmd_def])

section \<open>Errors in the watch loop\<close>

lemma updatedFile_unreadable:
  "files w f = None \<Longrightarrow> updatedFile fk p f w = (Some (ReadError f), record_action (ReadFile f) w)"
  by (simp add: updatedFile_def loadFileSource_def Let_def)

lemma updatedFile_empty:
  "files w f = Some [] \<Longrightarrow> updatedFile fk p f w = (Some (EmptyFile f), record_action (ReadFile f) w)"
  by (simp add: updatedFile_def loadFileSource_def Let_def)

lemma watcher_Add_files: "files (snd (watcher_Add path w)) = files w"
  by (simp add: watcher_Add_def Let_def split: option.splits)

lemma watchSelect_no_rename:
  "Op ev AND Rename \<noteq> Rename \<Longrightarrow>
   watchSelect fk p (EventsCase ev) w =
     (case updatedFile fk p (Event_Name ev) w of
        (Some err, w2) \<Rightarrow> (Exited, record_action (Fatal err) w2)
      | (None, w2) \<Rightarrow> (Watching, w2))"
  by (simp add: watchSelect_def readd_on_rename_def log_Fatal_def split: prod.splits option.splits)

lemma watchSelect_rename:
  "Op ev AND Rename = Rename \<Longrightarrow>
   watchSelect fk p (EventsCase ev) w =
     (case watcher_Add (p_file p) w of
        (Some err, w1) \<Rightarrow> (Exited, record_action (Fatal err) w1)
      | (None, w1) \<Rightarrow>
          (case updatedFile fk p (Event_Name ev) w1 of
             (Some err, w2) \<Rightarrow> (Exited, record_action (Fatal err) w2)
           | (None, w2) \<Rightarrow> (Watching, w2)))"
  by (simp add: watchSelect_def readd_on_rename_def log_Fatal_def split: prod.splits option.splits)

lemma watchSelect_bad_file:
  assumes "files w (Event_Name ev) = None \<or> files w (Event_Name ev) = Some []"
    and "watchSelect fk p (EventsCase ev) w = (st, w')"
  shows "st = Exited \<and> filter is_request (issued w w') = [] \<and> (\<exists>err tr. trace w' = tr @ [Fatal err])"
proof (cases "Op ev AND Rename = Rename")
  case False
  with assms show ?thesis
    by (auto simp: watchSelect_no_rename updatedFile_unreadable updatedFile_empty issued_def)
next
  case True
  obtain ra wa where a: "watcher_Add (p_file p) w = (ra, wa)" by (cases "watcher_Add (p_file p) w")
  from watcher_Add_effect [OF a] have e: "trace wa = trace w @ [WatcherAdd (p_file p)]" "files wa = files w"
    by simp_all
  show ?thesis
  proof (cases ra)
    case None
    with assms True a e show ?thesis
      by (auto simp: watchSelect_rename updatedFile_unreadable updatedFile_empty issued_def)
  next
    case (Some err)
    with assms True a e show ?thesis
      by (auto simp: watchSelect_rename issued_def)
  qed
qed

lemma writes_subset_requests: "filter is_request tr = [] \<Longrightarrow> writes tr = []"
proof (induction tr)
  case Nil
  then show ?case by simp
next
  case (Cons a tr)
  then show ?case by (cases a) (auto split: if_splits)
qed

lemma watchSelect_status:
  assumes "watchSelect fk p (EventsCase ev) w = (st, w')"
  shows "(st = Watching \<longrightarrow> (\<exists>wa. updatedFile fk p (Event_Name ev) wa = (None, w')))
       \<and> (st \<noteq> Watching \<longrightarrow> st = Exited \<and> (\<exists>err tr. trace w' = tr @ [Fatal err]))"
  using watchSelect_event [OF assms] by auto


lemma watchSelect_steps:
  "watchSelect fk p (EventsCase ev) w =
     (case readd_on_rename p ev w of
        (Some err, wa) \<Rightarrow> (Exited, record_action (Fatal err) wa)
      | (None, wa) \<Rightarrow>
          (case updatedFile fk p (Event_Name ev) wa of
             (Some err, wu) \<Rightarrow> (Exited, record_action (Fatal err) wu)
           | (None, wu) \<Rightarrow> (Watching, wu)))"
  by (simp add: watchSelect_def log_Fatal_def split: prod.splits option.splits)

lemma watchLoop_exited:
  "fst (watchSelect fk p occ w) = Exited \<Longrightarrow> watchLoop fk p (occ # occs) w = watchSelect fk p occ w"
  by (cases "watchSelect fk p occ w") simp

lemmas watch_defs = watchSelect_steps readd_on_rename_def watcher_Add_def Rename_def

text \<open>
  Claim C3, as stated, fails: the watched file \<open>foo.js\<close> cannot be read when its event
  arrives. The store is never contacted, yet the loop does not await the next event: the
  read error goes to \<open>log.Fatal\<close> and the process ends with the second event unhandled.
\<close>

theorem read_failure_ends_watch_counterexample:
  "files (example_world None [foo_with ''A'', nodejs_runtime]) ''foo.js'' = None
   \<and> fst (watchLoop example_funktion example_cmd [EventsCase write_event, EventsCase write_event]
          (example_world None [foo_with ''A'', nodejs_runtime])) = Exited
   \<and> trace (snd (watchLoop example_funktion example_cmd [EventsCase write_event, EventsCase write_event]
          (example_world None [foo_with ''A'', nodejs_runtime])))
       = [ReadFile ''foo.js'', Fatal (ReadError ''foo.js'')]"
  by (simp add: watch_defs run_defs example_defs)

text \<open>
  Claim C3, amended. Every error that arises while handling a watch event is passed to
  \<open>log.Fatal\<close> and ends the process: a failure to add the watched path again after a
  rename, and every error the reconciliation returns, in particular a failure to read the
  watched file, which ends the process without any request to the store. The loop keeps
  running after an event only when its reconciliation returned no error; once the
  process has ended no later event is handled. An error that the watcher delivers on its
  error channel is logged and the loop keeps running.
\<close>

theorem event_errors_are_fatal:
  "(files w (Event_Name ev) = None \<longrightarrow>
      fst (watchSelect fk p (EventsCase ev) w) = Exited
      \<and> filter is_request (issued w (snd (watchSelect fk p (EventsCase ev) w))) = [])
   \<and> (readd_on_rename p ev w = (None, wa) \<and> updatedFile fk p (Event_Name ev) wa = (Some err, wu)
        \<longrightarrow> watchSelect fk p (EventsCase ev) w = (Exited, record_action (Fatal err) wu))
   \<and> (readd_on_rename p ev w = (Some err, wa)
        \<longrightarrow> watchSelect fk p (EventsCase ev) w = (Exited, record_action (Fatal err) wa))
   \<and> (fst (watchSelect fk p (EventsCase ev) w) = Watching
        \<longrightarrow> (\<exists>wa. readd_on_rename p ev w = (None, wa)
                \<and> fst (updatedFile fk p (Event_Name ev) wa) = None))
   \<and> (fst (watchSelect fk p (EventsCase ev) w) = Exited
        \<longrightarrow> watchLoop fk p (EventsCase ev # occs) w = watchSelect fk p (EventsCase ev) w)
   \<and> watchSelect fk p (ErrorsCase e) w = (Watching, record_action (PrintError e) w)"
proof (intro conjI impI)
  assume n: "files w (Event_Name ev) = None"
  obtain st w' where s: "watchSelect fk p (EventsCase ev) w = (st, w')"
    by (cases "watchSelect fk p (EventsCase ev) w")
  from n have "files w (Event_Name ev) = None \<or> files w (Event_Name ev) = Some []" by simp
  from watchSelect_bad_file [OF this s] s
  show "fst (watchSelect fk p (EventsCase ev) w) = Exited"
    "filter is_request (issued w (snd (watchSelect fk p (EventsCase ev) w))) = []" by simp_all
next
  assume "readd_on_rename p ev w = (None, wa) \<and> updatedFile fk p (Event_Name ev) wa = (Some err, wu)"
  then show "watchSelect fk p (EventsCase ev) w = (Exited, record_action (Fatal err) wu)"
    by (simp add: watchSelect_steps)
next
  assume "readd_on_rename p ev w = (Some err, wa)"
  then show "watchSelect fk p (EventsCase ev) w = (Exited, record_action (Fatal err) wa)"
    by (simp add: watchSelect_steps)
next
  assume "fst (watchSelect fk p (EventsCase ev) w) = Watching"
  then show "\<exists>wa. readd_on_rename p ev w = (None, wa) \<and> fst (updatedFile fk p (Event_Name ev) wa) = None"
    by (auto simp: watchSelect_steps split: prod.splits option.splits)
next
  assume "fst (watchSelect fk p (EventsCase ev) w) = Exited"
  then show "watchLoop fk p (EventsCase ev # occs) w = watchSelect fk p (EventsCase ev) w"
    by (rule watchLoop_exited)
next
  show "watchSelect fk p (ErrorsCase e) w = (Watching, record_action (PrintError e) w)"
    by (simp add: watchSelect_def)
qed

theorem event_errors_are_fatal_witness:
  "fst (watchSelect example_funktion example_cmd (EventsCase write_event)
          (example_world None [foo_with ''A'', nodejs_runtime])) = Exited
   \<and> watchSelect example_funktion example_cmd (EventsCase write_event)
          (example_world (Some ''B'') [foo_with ''A''])
       = (Exited, record_action (Fatal (NoRuntimeExists ''nodejs''))
            (snd (updatedFile example_funktion example_cmd ''foo.js'' (example_world (Some ''B'') [foo_with ''A'']))))
   \<and> watchSelect example_funktion example_cmd (EventsCase rename_event)
          ((example_world (Some ''B'') [foo_with ''A''])\<lparr>addErrors := [''foo.js'' \<mapsto> WatcherError]\<rparr>)
       = (Exited, record_action (Fatal WatcherError)
            (record_action (WatcherAdd ''foo.js'')
              ((example_world (Some ''B'') [foo_with ''A''])\<lparr>addErrors := [''foo.js'' \<mapsto> WatcherError]\<rparr>)))
   \<and> fst (watchSelect example_funktion example_cmd (EventsCase write_event)
          (example_world (Some ''B'') [foo_with ''A'', nodejs_runtime])) = Watching
   \<and> fst (updatedFile example_funktion example_cmd ''foo.js''
          (example_world (Some ''B'') [foo_with ''A'', nodejs_runtime])) = None
   \<and> watchLoop example_funktion example_cmd [EventsCase write_event, EventsCase write_event]
          (example_world None [foo_with ''A'', nodejs_runtime])
       = watchSelect example_funktion example_cmd (EventsCase write_event)
          (example_world None [foo_with ''A'', nodejs_runtime])"
  using event_errors_are_fatal [of "example_world None [foo_with ''A'', nodejs_runtime]" write_event
      example_funktion example_cmd "example_world None [foo_with ''A'', nodejs_runtime]"
      "ReadError ''foo.js''"
      "record_action (ReadFile ''foo.js'') (example_world None [foo_with ''A'', nodejs_runtime])"
      "[EventsCase write_event]" WatcherError]
    event_errors_are_fatal [of "example_world (Some ''B'') [foo_with ''A'']" write_event
      example_funktion example_cmd "example_world (Some ''B'') [foo_with ''A'']"
      "NoRuntimeExists ''nodejs''"
      "snd (updatedFile example_funktion example_cmd ''foo.js'' (example_world (Some ''B'') [foo_with ''A'']))"
      "[]" WatcherError]
    event_errors_are_fatal [of
      "(example_world (Some ''B'') [foo_with ''A''])\<lparr>addErrors := [''foo.js'' \<mapsto> WatcherError]\<rparr>"
      rename_event example_funktion example_cmd
      "record_action (WatcherAdd ''foo.js'')
         ((example_world (Some ''B'') [foo_with ''A''])\<lparr>addErrors := [''foo.js'' \<mapsto> WatcherError]\<rparr>)"
      WatcherError
      "record_action (WatcherAdd ''foo.js'')
         ((example_world (Some ''B'') [foo_with ''A''])\<lparr>addErrors := [''foo.js'' \<mapsto> WatcherError]\<rparr>)"
      "[]" WatcherError]
    event_errors_are_fatal [of "example_world (Some ''B'') [foo_with ''A'', nodejs_runtime]" write_event
      example_funktion example_cmd "example_world (Some ''B'') [foo_with ''A'', nodejs_runtime]"
      WatcherError "example_world (Some ''B'') [foo_with ''A'', nodejs_runtime]" "[]" WatcherError]
  by (simp add: watch_defs run_defs example_defs example_name [unfolded example_cmd_def])

section \<open>An empty file\<close>

text \<open>
  Claim C4, as stated, fails: the watched file \<open>foo.js\<close> is empty when its event arrives.
  No Create and no Update is issued, but the loop does not continue: the process ends in
  \<open>log.Fatal\<close> with the error of the empty file.
\<close>

theorem empty_file_ends_watch_counterexample:
  "files (example_world (Some []) [foo_with ''A'', nodejs_runtime]) ''foo.js'' = Some []
   \<and> fst (watchLoop example_funktion example_cmd [EventsCase write_event, EventsCase write_event]
          (example_world (Some []) [foo_with ''A'', nodejs_runtime])) = Exited
   \<and> trace (snd (watchLoop example_funktion example_cmd [EventsCase write_event, EventsCase write_event]
          (example_world (Some []) [foo_with ''A'', nodejs_runtime])))
       = [ReadFile ''foo.js'', Fatal (EmptyFile ''foo.js'')]"
  by (simp add: watch_defs run_defs example_defs)

text \<open>
  Claim C4, amended. If a watched file is empty when it is read during a reconciliation,
  the reconciliation issues no Create and no Update request and returns the error of the
  empty file; the watch loop passes the error of that event to \<open>log.Fatal\<close>, so the
  process ends, without a write, and handles no later event. Unless the watcher refused
  the path of a rename event first, the error handed to \<open>log.Fatal\<close> is the error of
  the empty file.
\<close>

theorem empty_file_is_fatal:
  "files w (Event_Name ev) = Some [] \<longrightarrow>
     fst (updatedFile fk p (Event_Name ev) w) = Some (EmptyFile (Event_Name ev))
   \<and> writes (issued w (snd (updatedFile fk p (Event_Name ev) w))) = []
   \<and> fst (watchSelect fk p (EventsCase ev) w) = Exited
   \<and> writes (issued w (snd (watchSelect fk p (EventsCase ev) w))) = []
   \<and> (\<exists>err tr. trace (snd (watchSelect fk p (EventsCase ev) w)) = tr @ [Fatal err])
   \<and> watchLoop fk p (EventsCase ev # occs) w = watchSelect fk p (EventsCase ev) w
   \<and> (readd_on_rename p ev w = (None, wa) \<longrightarrow>
        watchSelect fk p (EventsCase ev) w
          = (Exited, record_action (Fatal (EmptyFile (Event_Name ev)))
                       (record_action (ReadFile (Event_Name ev)) wa)))"
proof
  assume e: "files w (Event_Name ev) = Some []"
  obtain st w' where s: "watchSelect fk p (EventsCase ev) w = (st, w')"
    by (cases "watchSelect fk p (EventsCase ev) w")
  from e have "files w (Event_Name ev) = None \<or> files w (Event_Name ev) = Some []" by simp
  from watchSelect_bad_file [OF this s]
  have b: "st = Exited" "filter is_request (issued w w') = []" "\<exists>err tr. trace w' = tr @ [Fatal err]"
    by simp_all
  from b(2) have "writes (issued w w') = []" by (rule writes_subset_requests)
  moreover have "watchLoop fk p (EventsCase ev # occs) w = watchSelect fk p (EventsCase ev) w"
    using s b(1) by (intro watchLoop_exited) simp
  moreover have "watchSelect fk p (EventsCase ev) w
          = (Exited, record_action (Fatal (EmptyFile (Event_Name ev)))
                       (record_action (ReadFile (Event_Name ev)) wa))"
    if r: "readd_on_rename p ev w = (None, wa)"
  proof -
    have "files wa = files w"
    proof (cases "Op ev AND Rename = Rename")
      case True
      with r have "watcher_Add (p_file p) w = (None, wa)" by (simp add: readd_on_rename_def)
      from watcher_Add_effect [OF this] show ?thesis by simp
    next
      case False
      with r show ?thesis by (simp add: readd_on_rename_def)
    qed
    with e have "files wa (Event_Name ev) = Some []" by simp
    with r show ?thesis by (simp add: watchSelect_steps updatedFile_empty)
  qed
  ultimately show "fst (updatedFile fk p (Event_Name ev) w) = Some (EmptyFile (Event_Name ev))
   \<and> writes (issued w (snd (updatedFile fk p (Event_Name ev) w))) = []
   \<and> fst (watchSelect fk p (EventsCase ev) w) = Exited
   \<and> writes (issued w (snd (watchSelect fk p (EventsCase ev) w))) = []
   \<and> (\<exists>err tr. trace (snd (watchSelect fk p (EventsCase ev) w)) = tr @ [Fatal err])
   \<and> watchLoop fk p (EventsCase ev # occs) w = watchSelect fk p (EventsCase ev) w
   \<and> (readd_on_rename p ev w = (None, wa) \<longrightarrow>
        watchSelect fk p (EventsCase ev) w
          = (Exited, record_action (Fatal (EmptyFile (Event_Name ev)))
                       (record_action (ReadFile (Event_Name ev)) wa)))"
    using s b e by (simp add: updatedFile_empty issued_def)
qed

theorem empty_file_is_fatal_witness:
  "files (example_world (Some []) [foo_with ''A'', nodejs_runtime]) (Event_Name write_event) = Some []
   \<and> fst (updatedFile example_funktion example_cmd (Event_Name write_event)
          (example_world (Some []) [foo_with ''A'', nodejs_runtime])) = Some (EmptyFile (Event_Name write_event))
   \<and> fst (watchSelect example_funktion example_cmd (EventsCase write_event)
          (example_world (Some []) [foo_with ''A'', nodejs_runtime])) = Exited
   \<and> writes (issued (example_world (Some []) [foo_with ''A'', nodejs_runtime])
        (snd (watchSelect example_funktion example_cmd (EventsCase write_event)
          (example_world (Some []) [foo_with ''A'', nodejs_runtime])))) = []"
  using empty_file_is_fatal [of "example_world (Some []) [foo_with ''A'', nodejs_runtime]" write_event
      example_funktion example_cmd "[]" "example_world (Some []) [foo_with ''A'', nodejs_runtime]"]
  by (simp add: example_defs)

section \<open>Renames\<close>

text \<open>
  Claim C8, as stated, fails: a rename event arrives and the watcher refuses to add the
  watched path \<open>foo.js\<close> again (after a plain rename the path no longer exists). The
  error goes to \<open>log.Fatal\<close>: the process ends with the path not registered and without
  a reconciliation for the event.
\<close>

theorem rename_refused_counterexample:
  "Op rename_event AND Rename = Rename
   \<and> fst (watchSelect example_funktion example_cmd (EventsCase rename_event)
          ((example_world (Some ''B'') [foo_with ''A'', nodejs_runtime])
             \<lparr>addErrors := [''foo.js'' \<mapsto> WatcherError]\<rparr>)) = Exited
   \<and> p_file example_cmd \<notin> watching (snd (watchSelect example_funktion example_cmd (EventsCase rename_event)
          ((example_world (Some ''B'') [foo_with ''A'', nodejs_runtime])
             \<lparr>addErrors := [''foo.js'' \<mapsto> WatcherError]\<rparr>)))
   \<and> trace (snd (watchSelect example_funktion example_cmd (EventsCase rename_event)
          ((example_world (Some ''B'') [foo_with ''A'', nodejs_runtime])
             \<lparr>addErrors := [''foo.js'' \<mapsto> WatcherError]\<rparr>)))
       = [WatcherAdd ''foo.js'', Fatal WatcherError]"
  by (simp add: watch_defs record_action_def log_Fatal_def example_defs)

text \<open>
  Claim C8, amended. For every watch event whose operations include a rename, the first
  thing the loop body does is to add the watched path (the file of the command) to the
  watcher again, before any reconciliation for that event. If the watcher accepts, the
  path is registered and the reconciliation of the event runs from there, so whenever the
  loop keeps running after a rename event the watched path is registered with the
  watcher. If the watcher refuses, the error goes to \<open>log.Fatal\<close> and the process ends
  without a reconciliation.
\<close>

theorem rename_readds_watch:
  "Op ev AND Rename = Rename \<and> watchSelect fk p (EventsCase ev) w = (st, w') \<longrightarrow>
     (\<exists>ra wa. watcher_Add (p_file p) w = (ra, wa) \<and> trace wa = trace w @ [WatcherAdd (p_file p)]
        \<and> (case ra of
              Some err \<Rightarrow> st = Exited \<and> w' = record_action (Fatal err) wa
            | None \<Rightarrow> p_file p \<in> watching wa
                \<and> (\<exists>r wu. updatedFile fk p (Event_Name ev) wa = (r, wu)
                     \<and> (case r of None \<Rightarrow> st = Watching \<and> w' = wu
                         | Some err \<Rightarrow> st = Exited \<and> w' = record_action (Fatal err) wu))))
   \<and> (\<exists>rest. issued w w' = WatcherAdd (p_file p) # rest)
   \<and> (st = Watching \<longrightarrow> p_file p \<in> watching w')"
proof (intro impI; elim conjE)
  assume rn: "Op ev AND Rename = Rename" and s: "watchSelect fk p (EventsCase ev) w = (st, w')"
  obtain ra wa where a: "watcher_Add (p_file p) w = (ra, wa)" by (cases "watcher_Add (p_file p) w")
  note ae = watcher_Add_effect [OF a]
  from rn a have rr: "readd_on_rename p ev w = (ra, wa)" by (simp add: readd_on_rename_def)
  obtain r wu where u: "updatedFile fk p (Event_Name ev) wa = (r, wu)"
    by (cases "updatedFile fk p (Event_Name ev) wa")
  from updatedFile_effect [OF u] obtain tr where ue: "trace wu = trace wa @ tr" "watching wu = watching wa"
    by blast
  show "(\<exists>ra wa. watcher_Add (p_file p) w = (ra, wa) \<and> trace wa = trace w @ [WatcherAdd (p_file p)]
        \<and> (case ra of
              Some err \<Rightarrow> st = Exited \<and> w' = record_action (Fatal err) wa
            | None \<Rightarrow> p_file p \<in> watching wa
                \<and> (\<exists>r wu. updatedFile fk p (Event_Name ev) wa = (r, wu)
                     \<and> (case r of None \<Rightarrow> st = Watching \<and> w' = wu
                         | Some err \<Rightarrow> st = Exited \<and> w' = record_action (Fatal err) wu))))
   \<and> (\<exists>rest. issued w w' = WatcherAdd (p_file p) # rest)
   \<and> (st = Watching \<longrightarrow> p_file p \<in> watching w')"
  proof (cases ra)
    case (Some err)
    with s rr ae a show ?thesis by (auto simp: watchSelect_steps issued_def)
  next
    case None
    show ?thesis
    proof (cases r)
      case rn: None
      with None s rr ae a u ue show ?thesis by (auto simp: watchSelect_steps issued_def)
    next
      case (Some err)
      with None s rr ae a u ue show ?thesis by (auto simp: watchSelect_steps issued_def)
    qed
  qed
qed

theorem rename_readds_watch_witness:
  "Op rename_event AND Rename = Rename
   \<and> fst (watchSelect example_funktion example_cmd (EventsCase rename_event)
          (example_world (Some ''B'') [foo_with ''A'', nodejs_runtime])) = Watching
   \<and> issued (example_world (Some ''B'') [foo_with ''A'', nodejs_runtime])
        (snd (watchSelect example_funktion example_cmd (EventsCase rename_event)
          (example_world (Some ''B'') [foo_with ''A'', nodejs_runtime])))
       = [WatcherAdd ''foo.js'', ReadFile ''foo.js'', StoreList [(''kind'', ''function'')],
          StoreList [(''kind'', ''runtime'')], StoreUpdate (foo_with ''B''),
          Println [''Function'', ''foo'', ''updated'']]
   \<and> p_file example_cmd \<in> watching (snd (watchSelect example_funktion example_cmd (EventsCase rename_event)
          (example_world (Some ''B'') [foo_with ''A'', nodejs_runtime])))"
  using rename_readds_watch [of rename_event example_funktion example_cmd
      "example_world (Some ''B'') [foo_with ''A'', nodejs_runtime]" Watching
      "snd (watchSelect example_funktion example_cmd (EventsCase rename_event)
          (example_world (Some ''B'') [foo_with ''A'', nodejs_runtime]))"]
  by (simp add: watch_defs run_defs example_defs example_name [unfolded example_cmd_def])

section \<open>The runtime check\<close>

lemma find_SomeD: "find P xs = Some x \<Longrightarrow> x \<in> set xs \<and> P x"
  by (induction xs) (auto split: if_splits)

lemma find_name_None: "name \<notin> Name ` set xs \<Longrightarrow> find (\<lambda>resource. Name resource = name) xs = None"
  by (auto simp: find_None_iff)

lemma find_name_Some: "name \<in> Name ` set xs \<Longrightarrow> \<exists>r. find (\<lambda>resource. Name resource = name) xs = Some r"
  by (cases "find (\<lambda>resource. Name resource = name) xs") (auto simp: find_None_iff)

lemma checkRuntimeExists_unknown:
  "CreateRuntimeListOptions fk = Inr rtOpts \<Longrightarrow> cms_List rtOpts w = (Inr runtimes, w1) \<Longrightarrow>
   name \<notin> Name ` set runtimes \<Longrightarrow>
   checkRuntimeExists fk p name w = (Some (NoRuntimeExists name), w1)"
  by (simp add: checkRuntimeExists_def find_name_None)

lemma checkRuntimeExists_known:
  "CreateRuntimeListOptions fk = Inr rtOpts \<Longrightarrow> cms_List rtOpts w = (Inr runtimes, w1) \<Longrightarrow>
   name \<in> Name ` set runtimes \<Longrightarrow>
   checkRuntimeExists fk p name w = (None, w1)"
  using find_name_Some [of name runtimes] by (auto simp: checkRuntimeExists_def)

lemma checkRuntimeExists_lists:
  "CreateRuntimeListOptions fk = Inr rtOpts \<Longrightarrow>
   issued w (snd (checkRuntimeExists fk p name w)) = [StoreList rtOpts]"
  by (auto simp: checkRuntimeExists_def issued_def split: prod.splits sum.splits option.splits
      dest!: cms_List_effect)

lemma createFunctionFromSource_lists:
  "p_runtime p \<noteq> [] \<Longrightarrow> CreateRuntimeListOptions fk = Inr rtOpts \<Longrightarrow>
   issued w (snd (createFunctionFromSource fk p n src w)) = [StoreList rtOpts]"
  using checkRuntimeExists_lists [of fk rtOpts w p "p_runtime p"]
  by (auto simp: createFunctionFromSource_def Let_def split: prod.splits option.splits)

lemma payload_needs_runtime:
  assumes "createFunctionFromSource fk p n src w = (Inr cm, w1)"
    and "CreateRuntimeListOptions fk = Inr rtOpts"
  shows "p_runtime p \<in> Name ` set (filter (matches rtOpts) (objects w))"
proof -
  from assms obtain w0 where c: "checkRuntimeExists fk p (p_runtime p) w = (None, w0)"
    by (auto simp: createFunctionFromSource_def Let_def split: if_splits prod.splits option.splits)
  obtain rl wl where l: "cms_List rtOpts w = (rl, wl)" by (cases "cms_List rtOpts w")
  from c l assms(2) obtain items r where "rl = Inr items"
    "find (\<lambda>resource. Name resource = p_runtime p) items = Some r"
    by (auto simp: checkRuntimeExists_def split: sum.splits option.splits)
  moreover from this cms_List_effect [OF l] have "items = filter (matches rtOpts) (objects w)" by simp
  ultimately have "r \<in> set (filter (matches rtOpts) (objects w))" "Name r = p_runtime p"
    using find_SomeD [of "\<lambda>resource. Name resource = p_runtime p" items r] by simp_all
  then show ?thesis by (metis image_eqI)
qed

lemma updatedFile_reaches:
  assumes u: "updatedFile fk p f w = (r, w')"
  shows "(r \<noteq> None \<and> writes (issued w w') = [])
       \<or> (\<exists>source listOpts resources w2 cm w3.
            files w f = Some source \<and> source \<noteq> [] \<and> CreateFunctionListOptions fk = Inr listOpts
            \<and> nameFromFile p f \<noteq> []
            \<and> cms_List listOpts (record_action (ReadFile f) w) = (Inr resources, w2)
            \<and> createFunctionFromSource fk p (nameFromFile p f) source w2 = (Inr cm, w3))"
proof (cases "files w f")
  case None
  with u show ?thesis by (auto simp: updatedFile_unreadable issued_def)
next
  case (Some source)
  show ?thesis
  proof (cases "source = []")
    case True
    with Some u show ?thesis by (auto simp: updatedFile_empty issued_def)
  next
    case False
    note ld = loadFileSource_ok [OF Some False]
    show ?thesis
    proof (cases "CreateFunctionListOptions fk")
      case (Inl err)
      with u ld show ?thesis by (auto simp: updatedFile_def issued_def)
    next
      case (Inr listOpts)
      show ?thesis
      proof (cases "nameFromFile p f = []")
        case True
        with u ld Inr show ?thesis by (auto simp: updatedFile_def issued_def)
      next
        case nm: False
        obtain rl w2 where l: "cms_List listOpts (record_action (ReadFile f) w) = (rl, w2)"
          by (cases "cms_List listOpts (record_action (ReadFile f) w)")
        from cms_List_effect [OF l] have t2: "trace w2 = trace w @ [ReadFile f, StoreList listOpts]"
          by simp
        show ?thesis
        proof (cases rl)
          case (Inl err)
          with u ld Inr nm l t2 show ?thesis by (auto simp: updatedFile_def issued_def)
        next
          case rs: (Inr resources)
          obtain rc w3 where c: "createFunctionFromSource fk p (nameFromFile p f) source w2 = (rc, w3)"
            by (cases "createFunctionFromSource fk p (nameFromFile p f) source w2")
          from createFunctionFromSource_effect [OF c] obtain tr where
            t3: "trace w3 = trace w2 @ tr" "writes tr = []" by blast
          show ?thesis
          proof (cases rc)
            case (Inl err)
            with u ld Inr nm l rs c t2 t3 show ?thesis by (auto simp: updatedFile_def issued_def)
          next
            case (Inr cm)
            with Some False \<open>CreateFunctionListOptions fk = Inr listOpts\<close> nm l rs c show ?thesis by blast
          qed
        qed
      qed
    qed
  qed
qed

lemma updatedFile_unknown_runtime:
  assumes ro: "CreateRuntimeListOptions fk = Inr rtOpts"
    and un: "p_runtime p \<notin> Name ` set (filter (matches rtOpts) (objects w))"
    and u: "updatedFile fk p f w = (r, w')"
  shows "r \<noteq> None \<and> writes (issued w w') = []"
  using updatedFile_reaches [OF u]
proof
  assume "r \<noteq> None \<and> writes (issued w w') = []"
  then show ?thesis .
next
  assume "\<exists>source listOpts resources w2 cm w3.
            files w f = Some source \<and> source \<noteq> [] \<and> CreateFunctionListOptions fk = Inr listOpts
            \<and> nameFromFile p f \<noteq> []
            \<and> cms_List listOpts (record_action (ReadFile f) w) = (Inr resources, w2)
            \<and> createFunctionFromSource fk p (nameFromFile p f) source w2 = (Inr cm, w3)"
  then obtain source listOpts resources w2 cm w3 where
    l: "cms_List listOpts (record_action (ReadFile f) w) = (Inr resources, w2)"
    and c: "createFunctionFromSource fk p (nameFromFile p f) source w2 = (Inr cm, w3)" by blast
  from cms_List_effect [OF l] have "objects w2 = objects w" by simp
  with payload_needs_runtime [OF c ro] un show ?thesis by simp
qed

text \<open>
  Claim C5. Whenever the name handed to the existence check is not among the runtime
  resources that its List of the store returns, the check fails with the error that no
  such runtime exists; so building the payload for a configured runtime name (the runtime
  flag is not empty) that the fresh List does not return fails with that error, and a
  reconciliation whose runtime is not among the runtimes of the store returns an error
  and issues no Create and no Update request. Nothing is cached: every attempt to build a
  payload for a configured runtime issues its own List of runtimes, in whatever world it
  runs, and when that List returns the runtime (registered in the meantime) the payload
  is built.
\<close>

theorem unknown_runtime_is_rejected:
  "(CreateRuntimeListOptions fk = Inr rtOpts \<and> cms_List rtOpts w = (Inr runtimes, w1)
      \<and> name \<notin> Name ` set runtimes
     \<longrightarrow> checkRuntimeExists fk p name w = (Some (NoRuntimeExists name), w1))
   \<and> (p_runtime p \<noteq> [] \<and> CreateRuntimeListOptions fk = Inr rtOpts
      \<and> cms_List rtOpts w = (Inr runtimes, w1) \<and> p_runtime p \<notin> Name ` set runtimes
     \<longrightarrow> createFunctionFromSource fk p n src w = (Inl (NoRuntimeExists (p_runtime p)), w1)
        \<and> writes (issued w w1) = [])
   \<and> (CreateRuntimeListOptions fk = Inr rtOpts
      \<and> p_runtime p \<notin> Name ` set (filter (matches rtOpts) (objects v))
     \<longrightarrow> fst (updatedFile fk p f v) \<noteq> None
        \<and> writes (issued v (snd (updatedFile fk p f v))) = [])
   \<and> (p_runtime p \<noteq> [] \<and> CreateRuntimeListOptions fk = Inr rtOpts
     \<longrightarrow> issued u (snd (createFunctionFromSource fk p n src u)) = [StoreList rtOpts])
   \<and> (p_runtime p \<noteq> [] \<and> CreateRuntimeListOptions fk = Inr rtOpts
      \<and> cms_List rtOpts u = (Inr later, u1) \<and> p_runtime p \<in> Name ` set later
     \<longrightarrow> (\<exists>cm. createFunctionFromSource fk p n src u = (Inr cm, u1)))"
proof (intro conjI impI; (elim conjE)?)
  assume "CreateRuntimeListOptions fk = Inr rtOpts" "cms_List rtOpts w = (Inr runtimes, w1)"
    "name \<notin> Name ` set runtimes"
  then show "checkRuntimeExists fk p name w = (Some (NoRuntimeExists name), w1)"
    by (rule checkRuntimeExists_unknown)
next
  assume a: "p_runtime p \<noteq> []" "CreateRuntimeListOptions fk = Inr rtOpts"
    "cms_List rtOpts w = (Inr runtimes, w1)" "p_runtime p \<notin> Name ` set runtimes"
  from checkRuntimeExists_unknown [OF a(2,3,4)] a(1)
  show "createFunctionFromSource fk p n src w = (Inl (NoRuntimeExists (p_runtime p)), w1)"
    by (simp add: createFunctionFromSource_def)
  from cms_List_effect [OF a(3)] show "writes (issued w w1) = []" by (simp add: issued_def)
next
  assume a: "CreateRuntimeListOptions fk = Inr rtOpts"
    "p_runtime p \<notin> Name ` set (filter (matches rtOpts) (objects v))"
  obtain r v' where u: "updatedFile fk p f v = (r, v')" by (cases "updatedFile fk p f v")
  from updatedFile_unknown_runtime [OF a u] u
  show "fst (updatedFile fk p f v) \<noteq> None" "writes (issued v (snd (updatedFile fk p f v))) = []"
    by simp_all
next
  assume "p_runtime p \<noteq> []" "CreateRuntimeListOptions fk = Inr rtOpts"
  then show "issued u (snd (createFunctionFromSource fk p n src u)) = [StoreList rtOpts]"
    by (rule createFunctionFromSource_lists)
next
  assume a: "p_runtime p \<noteq> []" "CreateRuntimeListOptions fk = Inr rtOpts"
    "cms_List rtOpts u = (Inr later, u1)" "p_runtime p \<in> Name ` set later"
  from checkRuntimeExists_known [OF a(2,3,4)] a(1)
  show "\<exists>cm. createFunctionFromSource fk p n src u = (Inr cm, u1)"
    by (simp add: createFunctionFromSource_def)
qed

theorem unknown_runtime_is_rejected_witness:
  "createFunctionFromSource example_funktion example_cmd ''foo'' ''B'' (example_world (Some ''B'') [foo_with ''A''])
     = (Inl (NoRuntimeExists ''nodejs''),
        record_action (StoreList [(''kind'', ''runtime'')]) (example_world (Some ''B'') [foo_with ''A'']))
   \<and> fst (updatedFile example_funktion example_cmd ''foo.js'' (example_world (Some ''B'') [foo_with ''A''])) \<noteq> None
   \<and> writes (issued (example_world (Some ''B'') [foo_with ''A''])
        (snd (updatedFile example_funktion example_cmd ''foo.js'' (example_world (Some ''B'') [foo_with ''A''])))) = []
   \<and> (\<exists>cm. createFunctionFromSource example_funktion example_cmd ''foo'' ''B''
              (example_world (Some ''B'') [foo_with ''A'', nodejs_runtime])
        = (Inr cm, record_action (StoreList [(''kind'', ''runtime'')])
                     (example_world (Some ''B'') [foo_with ''A'', nodejs_runtime])))"
  using unknown_runtime_is_rejected [where fk = example_funktion and rtOpts = "[(''kind'', ''runtime'')]"
      and w = "example_world (Some ''B'') [foo_with ''A'']" and runtimes = "[]"
      and ?w1.0 = "record_action (StoreList [(''kind'', ''runtime'')]) (example_world (Some ''B'') [foo_with ''A''])"
      and name = "''nodejs''" and p = example_cmd and n = "''foo''" and src = "''B''"
      and v = "example_world (Some ''B'') [foo_with ''A'']" and f = "''foo.js''"
      and u = "example_world (Some ''B'') [foo_with ''A'', nodejs_runtime]"
      and later = "[nodejs_runtime]"
      and ?u1.0 = "record_action (StoreList [(''kind'', ''runtime'')])
                     (example_world (Some ''B'') [foo_with ''A'', nodejs_runtime])"]
  by (simp add: cms_List_def request_def record_action_def matches_def example_defs)

section \<open>Files named by their extension alone\<close>

lemma strip_hidden: "CHR ''.'' \<notin> set rest \<Longrightarrow> strip_extension (CHR ''.'' # rest) = []"
proof -
  assume a: "CHR ''.'' \<notin> set rest"
  have "dropWhile (\<lambda>c. c \<noteq> CHR ''.'') (rev rest @ ''.'') = dropWhile (\<lambda>c. c \<noteq> CHR ''.'') ''.''"
    using a by (intro dropWhile_append2) auto
  then show ?thesis by (simp add: strip_extension_def)
qed

text \<open>
  Claim C10. For a file whose base name begins with a dot and holds no other dot (such as
  \<open>.profile\<close>) and a command without a name flag, \<open>nameFromFile\<close> returns the empty
  string. So a reconciliation of such a file never gets past name resolution: it always
  returns an error and never sends a request to the store, and whenever the file is read
  and is not empty (and the list options are built) the error is the failure of name
  resolution.
\<close>

theorem dot_file_has_no_name:
  "p_name p = [] \<and> base_name f = CHR ''.'' # rest \<and> CHR ''.'' \<notin> set rest \<longrightarrow>
     nameFromFile p f = []
   \<and> fst (updatedFile fk p f w) \<noteq> None
   \<and> filter is_request (issued w (snd (updatedFile fk p f w))) = []
   \<and> (files w f = Some source \<and> source \<noteq> [] \<and> CreateFunctionListOptions fk = Inr listOpts
       \<longrightarrow> updatedFile fk p f w = (Some NoFunctionName, record_action (ReadFile f) w))"
proof (intro impI; elim conjE)
  assume a: "p_name p = []" "base_name f = CHR ''.'' # rest" "CHR ''.'' \<notin> set rest"
  from a(2) have "f \<noteq> []" by (auto simp: base_name_def)
  with a have n: "nameFromFile p f = []" by (simp add: nameFromFile_no_flag strip_hidden)
  have u: "fst (updatedFile fk p f w) \<noteq> None
      \<and> filter is_request (issued w (snd (updatedFile fk p f w))) = []"
    using n by (simp add: updatedFile_def loadFileSource_def Let_def issued_def
        split: option.splits sum.splits)
  have "updatedFile fk p f w = (Some NoFunctionName, record_action (ReadFile f) w)"
    if "files w f = Some source \<and> source \<noteq> [] \<and> CreateFunctionListOptions fk = Inr listOpts"
    using that n by (simp add: updatedFile_def loadFileSource_ok)
  with n u show "nameFromFile p f = []
   \<and> fst (updatedFile fk p f w) \<noteq> None
   \<and> filter is_request (issued w (snd (updatedFile fk p f w))) = []
   \<and> (files w f = Some source \<and> source \<noteq> [] \<and> CreateFunctionListOptions fk = Inr listOpts
       \<longrightarrow> updatedFile fk p f w = (Some NoFunctionName, record_action (ReadFile f) w))"
    by blast
qed

theorem dot_file_has_no_name_witness:
  "base_name ''home/.profile'' = ''.profile''
   \<and> nameFromFile example_cmd ''home/.profile'' = []
   \<and> updatedFile example_funktion example_cmd ''home/.profile''
        ((example_world None [nodejs_runtime])\<lparr>files := [''home/.profile'' \<mapsto> ''x'']\<rparr>)
      = (Some NoFunctionName, record_action (ReadFile ''home/.profile'')
           ((example_world None [nodejs_runtime])\<lparr>files := [''home/.profile'' \<mapsto> ''x'']\<rparr>))"
  using dot_file_has_no_name [of example_cmd "''home/.profile''" "''profile''" example_funktion
      "(example_world None [nodejs_runtime])\<lparr>files := [''home/.profile'' \<mapsto> ''x'']\<rparr>"
      "''x''" "[(''kind'', ''function'')]"]
  by (simp add: base_name_def example_defs)

section \<open>The installer's writes\<close>













end
